theory Spec2Isabelle
  imports Main "HOL-Library.Multiset" "HOL-Library.Sublist"
begin

section \<open>Values, rows and instants\<close>

text \<open>
  The intent is the dictionary that \<^verbatim>\<open>json.loads\<close> produced, so its values are
  JSON values: \<^verbatim>\<open>None\<close>, booleans, integers, strings, lists and dictionaries.
  JSON numbers with a fraction are not modelled. Strings are byte strings, and
  the theory speaks of tables and intents written in ASCII: the case mapping
  below is the ASCII part of Python's \<^verbatim>\<open>str.lower\<close>, which also maps the cased
  letters beyond ASCII.
\<close>

datatype pyval =
    PNone
  | PBool bool
  | PInt int
  | PStr string
  | PList "pyval list"
  | PDict "(string \<times> pyval) list"

datatype py_error = AttributeError | TypeError | ValueError | KeyError | ReError

type_synonym intent = "string \<rightharpoonup> pyval"

text \<open>\<^verbatim>\<open>intent.get(k)\<close> and \<^verbatim>\<open>intent.get(k, default)\<close>.\<close>

definition dict_get :: "intent \<Rightarrow> string \<Rightarrow> pyval" where
  "dict_get d k = (case d k of None \<Rightarrow> PNone | Some v \<Rightarrow> v)"

definition dict_get_default :: "intent \<Rightarrow> string \<Rightarrow> pyval \<Rightarrow> pyval" where
  "dict_get_default d k dflt = (case d k of None \<Rightarrow> dflt | Some v \<Rightarrow> v)"

text \<open>Python truthiness, as \<^verbatim>\<open>if x:\<close> and \<^verbatim>\<open>if not x:\<close> test it.\<close>

fun truthy :: "pyval \<Rightarrow> bool" where
  "truthy PNone = False"
| "truthy (PBool b) = b"
| "truthy (PInt i) = (i \<noteq> 0)"
| "truthy (PStr s) = (s \<noteq> [])"
| "truthy (PList vs) = (vs \<noteq> [])"
| "truthy (PDict kvs) = (kvs \<noteq> [])"

text \<open>
  Lines 67 to 70: \<^verbatim>\<open>if isinstance(x, list) and len(x) > 0: x = x[0]\<close>.
  An empty list is left as it is.
\<close>

fun first_of_list :: "pyval \<Rightarrow> pyval" where
  "first_of_list (PList (v # vs)) = v"
| "first_of_list v = v"

definition lower_char :: "char \<Rightarrow> char" where
  "lower_char c =
     (let n = (of_char c :: nat) in if 65 \<le> n \<and> n \<le> 90 then char_of (n + 32) else c)"

definition str_lower :: "string \<Rightarrow> string" where
  "str_lower s = map lower_char s"

text \<open>\<^verbatim>\<open>x.lower()\<close> on an intent value: only a string has the method.\<close>

fun py_lower :: "pyval \<Rightarrow> py_error + string" where
  "py_lower (PStr s) = Inr (str_lower s)"
| "py_lower v = Inl AttributeError"

text \<open>
  A \<^verbatim>\<open>datetime.time\<close> and a \<^verbatim>\<open>datetime.datetime\<close>; the date is its day number.
  Python orders both field by field, which for the field ranges Python enforces
  (hour below 24, minute and second below 60, microsecond below one million) is the
  order of the microsecond counts \<open>time_us\<close> and \<open>instant\<close>.
\<close>

record pytime =
  hour :: nat
  minute :: nat
  second :: nat
  microsecond :: nat

record pydatetime =
  day :: int
  clock :: pytime

definition time_us :: "pytime \<Rightarrow> int" where
  "time_us t = int (((hour t * 60 + minute t) * 60 + second t) * 1000000 + microsecond t)"

definition instant :: "pydatetime \<Rightarrow> int" where
  "instant d = day d * 86400000000 + time_us (clock d)"

text \<open>\<^verbatim>\<open>datetime.combine(date, time)\<close>.\<close>

definition combine :: "int \<Rightarrow> pytime \<Rightarrow> pydatetime" where
  "combine d t = \<lparr>day = d, clock = t\<rparr>"

text \<open>
  One row of the schedule table, with the four columns the engine reads:
  \<^verbatim>\<open>Linea\<close>, \<^verbatim>\<open>Direccion\<close>, \<^verbatim>\<open>Salida\<close> and \<^verbatim>\<open>Llegada\<close> (the accents of the column
  names are dropped). The table is the list of its rows, in index order.
\<close>

record trip =
  Linea :: string
  Direccion :: string
  Salida :: pytime
  Llegada :: pytime

section \<open>Library functions the engine calls\<close>

subsection \<open>\<^verbatim>\<open>Series.str.contains\<close>\<close>

text \<open>
  \<^verbatim>\<open>Series.str.contains(pat, na=False)\<close> keeps the default \<^verbatim>\<open>regex=True\<close>: the
  pattern is compiled as a regular expression and searched in each cell. The
  theory interprets the patterns made of ordinary characters and the wildcard
  \<^verbatim>\<open>.\<close> (any character but a newline). A pattern with another metacharacter is handed
  to the parameter \<open>rx\<close>, which stands for the regular expression engine there
  (it may raise \<^verbatim>\<open>re.error\<close>).
\<close>

type_synonym re_engine = "string \<Rightarrow> string \<Rightarrow> py_error + bool"

definition re_special :: "char \<Rightarrow> bool" where
  "re_special c = (c \<in> set ''^$*+?{}[]|()'' \<or> c = CHR 0x5C)"

fun match_here :: "string \<Rightarrow> string \<Rightarrow> bool" where
  "match_here [] s = True"
| "match_here (p # ps) [] = False"
| "match_here (p # ps) (c # cs) =
     ((p = c \<or> (p = CHR ''.'' \<and> c \<noteq> CHR 0x0A)) \<and> match_here ps cs)"

fun search :: "string \<Rightarrow> string \<Rightarrow> bool" where
  "search p [] = match_here p []"
| "search p (c # cs) = (match_here p (c # cs) \<or> search p cs)"

definition re_search :: "re_engine \<Rightarrow> string \<Rightarrow> string \<Rightarrow> py_error + bool" where
  "re_search rx p s = (if \<exists>c \<in> set p. re_special c then rx p s else Inr (search p s))"

text \<open>A boolean mask computed cell by cell; the first failure is the call's.\<close>

fun filter_res :: "('a \<Rightarrow> py_error + bool) \<Rightarrow> 'a list \<Rightarrow> py_error + 'a list" where
  "filter_res f [] = Inr []"
| "filter_res f (x # xs) =
     (case f x of
        Inl e \<Rightarrow> Inl e
      | Inr b \<Rightarrow> (case filter_res f xs of
                   Inl e \<Rightarrow> Inl e
                 | Inr ys \<Rightarrow> Inr (if b then x # ys else ys)))"

subsection \<open>\<^verbatim>\<open>datetime.strptime(s, '%H:%M')\<close>\<close>

text \<open>
  The format compiles to the expression
  \<^verbatim>\<open>(2[0-3]|[0-1]\d|\d):([0-5]\d|\d)\<close>, matched at the start of the string;
  text left over after the match is a \<^verbatim>\<open>ValueError\<close>, as is no match. The
  digits are the ASCII ones; Python's \<^verbatim>\<open>\d\<close> also takes the other decimal
  digits of Unicode, which are outside this theory.
\<close>

definition is_digit :: "char \<Rightarrow> bool" where
  "is_digit c = (let n = (of_char c :: nat) in 48 \<le> n \<and> n \<le> 57)"

definition digit_val :: "char \<Rightarrow> nat" where
  "digit_val c = of_char c - 48"

fun parse_minute :: "string \<Rightarrow> nat option" where
  "parse_minute [a] = (if is_digit a then Some (digit_val a) else None)"
| "parse_minute [a, b] =
     (if is_digit a \<and> is_digit b \<and> digit_val a \<le> 5
      then Some (10 * digit_val a + digit_val b) else None)"
| "parse_minute s = None"

definition hm_time :: "nat \<Rightarrow> nat \<Rightarrow> pytime" where
  "hm_time h m = \<lparr>hour = h, minute = m, second = 0, microsecond = 0\<rparr>"

fun strptime_HM :: "string \<Rightarrow> py_error + pytime" where
  "strptime_HM (a # b # rest) =
     (if is_digit a \<and> is_digit b
         \<and> (digit_val a \<le> 1 \<or> (digit_val a = 2 \<and> digit_val b \<le> 3))
      then (case rest of
              [] \<Rightarrow> Inl ValueError
            | c # rest' \<Rightarrow>
                if c = CHR '':''
                then (case parse_minute rest' of
                        None \<Rightarrow> Inl ValueError
                      | Some m \<Rightarrow> Inr (hm_time (10 * digit_val a + digit_val b) m))
                else Inl ValueError)
      else if is_digit a \<and> b = CHR '':''
      then (case parse_minute rest of
              None \<Rightarrow> Inl ValueError
            | Some m \<Rightarrow> Inr (hm_time (digit_val a) m))
      else Inl ValueError)"
| "strptime_HM s = Inl ValueError"

text \<open>\<^verbatim>\<open>datetime.strptime\<close> on an intent value: a \<^verbatim>\<open>TypeError\<close> unless it is a string.\<close>

fun py_strptime :: "pyval \<Rightarrow> py_error + pytime" where
  "py_strptime (PStr s) = strptime_HM s"
| "py_strptime v = Inl TypeError"

subsection \<open>\<^verbatim>\<open>DataFrame.head\<close> and \<^verbatim>\<open>DataFrame.sort_values\<close>\<close>

text \<open>
  \<^verbatim>\<open>head(n)\<close> is \<^verbatim>\<open>iloc[:n]\<close>: the first \<open>n\<close> rows, or all but the last \<open>-n\<close> rows
  when \<open>n\<close> is negative. The bound must be an integer (a boolean is refused too).
\<close>

definition head_rows :: "int \<Rightarrow> 'a list \<Rightarrow> 'a list" where
  "head_rows n xs = (if 0 \<le> n then take (nat n) xs else take (length xs - nat (- n)) xs)"

fun py_head :: "pyval \<Rightarrow> 'a list \<Rightarrow> py_error + 'a list" where
  "py_head (PInt n) xs = Inr (head_rows n xs)"
| "py_head v xs = Inl TypeError"

text \<open>
  \<^verbatim>\<open>sort_values(by=col)\<close> returns the rows in ascending order of the column, and
  \<^verbatim>\<open>ascending=False\<close> in descending order. The order among equal keys is that
  of a stable sort here; the default algorithm of the library does not promise it,
  and no theorem below depends on it.
\<close>

definition sort_values :: "('a \<Rightarrow> int) \<Rightarrow> 'a list \<Rightarrow> 'a list" where
  "sort_values k xs = sort_key k xs"

definition sort_values_desc :: "('a \<Rightarrow> int) \<Rightarrow> 'a list \<Rightarrow> 'a list" where
  "sort_values_desc k xs = sort_key (\<lambda>x. - k x) xs"

section \<open>The query engine\<close>

text \<open>
  The derived columns of lines 88 and 89: each row's departure and arrival combined
  with today's date, as instants. The current instant \<open>now\<close> is a parameter;
  today's date is its date.
\<close>

definition salida_datetime :: "pydatetime \<Rightarrow> trip \<Rightarrow> int" where
  "salida_datetime now r = instant (combine (day now) (Salida r))"

definition llegada_datetime :: "pydatetime \<Rightarrow> trip \<Rightarrow> int" where
  "llegada_datetime now r = instant (combine (day now) (Llegada r))"

text \<open>
  The dtype of those two columns. \<^verbatim>\<open>Series.apply\<close> hands back the values the
  function returned, which become a \<^verbatim>\<open>datetime64\<close> column; on a frame without
  rows there is no value, and the column keeps the dtype \<^verbatim>\<open>object\<close> of the column
  it was computed from. Comparing an \<^verbatim>\<open>object\<close> column without rows with an
  instant works, and so does sorting by it; the subtraction and \<^verbatim>\<open>abs\<close> of lines
  133 and 147 raise \<^verbatim>\<open>TypeError\<close> on it.
\<close>

datatype dtype = Datetime64 | ObjectDtype | Timedelta64

definition apply_dtype :: "trip list \<Rightarrow> dtype" where
  "apply_dtype rows = (if rows = [] then ObjectDtype else Datetime64)"

text \<open>Lines 73 to 80: the branch taken when \<^verbatim>\<open>micro_linea\<close> is truthy.\<close>

definition rama_linea :: "re_engine \<Rightarrow> trip list \<Rightarrow> pyval \<Rightarrow> pyval \<Rightarrow> py_error + trip list" where
  "rama_linea rx df micro_linea direccion =
     (case py_lower micro_linea of
        Inl e \<Rightarrow> Inl e
      | Inr pat \<Rightarrow>
          (case filter_res (\<lambda>r. re_search rx pat (str_lower (Linea r))) df of
             Inl e \<Rightarrow> Inl e
           | Inr df_filtrado \<Rightarrow>
               if truthy direccion
               then (case py_lower direccion of
                       Inl e \<Rightarrow> Inl e
                     | Inr d \<Rightarrow>
                         Inr (sort_values (\<lambda>r. time_us (Salida r))
                                (filter (\<lambda>r. str_lower (Direccion r) = d) df_filtrado)))
               else Inr (sort_values (\<lambda>r. time_us (Salida r)) df_filtrado)))"

text \<open>Lines 93 to 101: \<^verbatim>\<open>hora == 'ahora'\<close>.\<close>

definition rama_ahora :: "pydatetime \<Rightarrow> trip list \<Rightarrow> pyval \<Rightarrow> pyval \<Rightarrow> py_error + trip list" where
  "rama_ahora now df_filtrado listado_completo cantidad =
     (let proximos = sort_values (salida_datetime now) df_filtrado
      in if truthy listado_completo then Inr proximos
         else if cantidad \<noteq> PNone then py_head cantidad proximos
         else Inr (head_rows 3 proximos))"

text \<open>
  Lines 109 to 127: \<^verbatim>\<open>condicion_horario == 'cerca'\<close>. The accumulator
  \<^verbatim>\<open>resultados\<close> starts as \<^verbatim>\<open>pd.DataFrame()\<close>, a frame with no column at all,
  written \<open>None\<close>; once a block of rows is concatenated to it, it has their
  columns. \<^verbatim>\<open>sort_values(by='llegada_datetime')\<close> on the frame without columns
  raises \<^verbatim>\<open>KeyError\<close>.
\<close>

definition concat_frames :: "trip list option \<Rightarrow> trip list \<Rightarrow> trip list option" where
  "concat_frames acc rows = (case acc of None \<Rightarrow> Some rows | Some xs \<Rightarrow> Some (xs @ rows))"

definition rama_cerca :: "pydatetime \<Rightarrow> trip list \<Rightarrow> pydatetime \<Rightarrow> py_error + trip list" where
  "rama_cerca now df_filtrado hora_solicitada_dt =
     (let micros_antes =
            filter (\<lambda>r. llegada_datetime now r \<le> instant hora_solicitada_dt) df_filtrado;
          micros_despues =
            filter (\<lambda>r. llegada_datetime now r > instant hora_solicitada_dt) df_filtrado;
          resultados = None;
          resultados =
            (if micros_antes \<noteq> []
             then concat_frames resultados
                    (head_rows 1 (sort_values_desc (llegada_datetime now) micros_antes))
             else resultados);
          resultados =
            (if micros_despues \<noteq> []
             then concat_frames resultados
                    (head_rows 1 (sort_values (llegada_datetime now) micros_despues))
             else resultados)
      in case resultados of
           None \<Rightarrow> Inl KeyError
         | Some rows \<Rightarrow> Inr (sort_values (llegada_datetime now) rows))"

text \<open>
  Lines 130 to 155: \<^verbatim>\<open>'antes_de'\<close> and \<^verbatim>\<open>'despues_de'\<close> differ in the comparison
  only, so the rows already selected are the argument, with the dtype of their
  column \<^verbatim>\<open>llegada_datetime\<close>. The column \<^verbatim>\<open>diff\<close> is the absolute difference to
  the requested instant, in microseconds; computing it is the first thing the
  branch does after the selection, before the full listing or the count is read.
\<close>

definition diff_abs :: "pydatetime \<Rightarrow> pydatetime \<Rightarrow> trip \<Rightarrow> int" where
  "diff_abs now hora_solicitada_dt r = \<bar>llegada_datetime now r - instant hora_solicitada_dt\<bar>"

definition rama_rango ::
  "pydatetime \<Rightarrow> dtype \<Rightarrow> trip list \<Rightarrow> pydatetime \<Rightarrow> pyval \<Rightarrow> pyval \<Rightarrow> py_error + trip list" where
  "rama_rango now llegada_dtype seleccion hora_solicitada_dt listado_completo cantidad =
     (if llegada_dtype = ObjectDtype then Inl TypeError
      else
        let cercanos = sort_values (diff_abs now hora_solicitada_dt) seleccion
        in if truthy listado_completo then Inr cercanos
           else if cantidad \<noteq> PNone then py_head cantidad cercanos
           else Inr cercanos)"

text \<open>
  Lines 105 to 158: the \<^verbatim>\<open>try\<close> block and its \<^verbatim>\<open>except ValueError\<close>, which
  turns that one exception into the empty result and lets every other pass. A
  body that ends without returning falls through to line 160.
\<close>

definition except_ValueError :: "py_error + trip list \<Rightarrow> py_error + trip list" where
  "except_ValueError body =
     (case body of
        Inl e \<Rightarrow> if e = ValueError then Inr [] else Inl e
      | Inr rows \<Rightarrow> Inr rows)"

definition rama_hora ::
  "pydatetime \<Rightarrow> dtype \<Rightarrow> trip list \<Rightarrow> pyval \<Rightarrow> pyval \<Rightarrow> pyval \<Rightarrow> pyval
     \<Rightarrow> py_error + trip list" where
  "rama_hora now llegada_dtype df_filtrado hora_str condicion_horario listado_completo cantidad =
     except_ValueError
       (case py_strptime hora_str of
          Inl e \<Rightarrow> Inl e
        | Inr t \<Rightarrow>
            (let hora_solicitada_dt = combine (day now) t
             in if condicion_horario = PStr ''cerca''
                then rama_cerca now df_filtrado hora_solicitada_dt
                else if condicion_horario = PStr ''antes_de''
                then rama_rango now llegada_dtype
                       (filter (\<lambda>r. llegada_datetime now r < instant hora_solicitada_dt)
                          df_filtrado)
                       hora_solicitada_dt listado_completo cantidad
                else if condicion_horario = PStr ''despues_de''
                then rama_rango now llegada_dtype
                       (filter (\<lambda>r. llegada_datetime now r \<ge> instant hora_solicitada_dt)
                          df_filtrado)
                       hora_solicitada_dt listado_completo cantidad
                else Inr []))"

text \<open>
  Lines 43 to 160. The result is the list of the rows of the returned frame, in
  its order (\<^verbatim>\<open>pd.DataFrame()\<close> has none), or the exception that leaves the
  function.
\<close>

definition buscar_horarios ::
  "re_engine \<Rightarrow> trip list \<Rightarrow> pydatetime \<Rightarrow> intent \<Rightarrow> py_error + trip list" where
  "buscar_horarios rx df now intent =
     (if df = [] then Inr []
      else
        let direccion = first_of_list (dict_get intent ''direccion'');
            hora_str = dict_get intent ''hora'';
            condicion_horario = dict_get intent ''condicion_horario'';
            cantidad = dict_get intent ''cantidad'';
            listado_completo = dict_get_default intent ''listado_completo'' (PBool False);
            micro_linea = first_of_list (dict_get intent ''micro_linea'')
        in if truthy micro_linea then rama_linea rx df micro_linea direccion
           else if \<not> truthy direccion then Inr []
           else (case py_lower direccion of
                   Inl e \<Rightarrow> Inl e
                 | Inr d \<Rightarrow>
                     (let df_filtrado = filter (\<lambda>r. str_lower (Direccion r) = d) df;
                          llegada_dtype = apply_dtype df_filtrado;
                          df_filtrado =
                            filter (\<lambda>r. salida_datetime now r > instant now) df_filtrado
                      in if hora_str = PStr ''ahora''
                         then rama_ahora now df_filtrado listado_completo cantidad
                         else if truthy hora_str
                         then rama_hora now llegada_dtype df_filtrado hora_str condicion_horario
                                listado_completo cantidad
                         else Inr [])))"

section \<open>Scenario data\<close>

text \<open>
  The store of the specification's scenarios: three outbound trips leaving at
  14:50, 15:10 and 15:30 and arriving thirty minutes later, read at 14:00, before any
  has left, at 15:00 or, once all have left, at 16:00; and a
  regular expression engine that refuses every pattern handed to it.
\<close>

definition trip_1450 :: trip where
  "trip_1450 = \<lparr>Linea = ''Ruta 60'', Direccion = ''Ida'', Salida = hm_time 14 50, Llegada = hm_time 15 20\<rparr>"

definition trip_1510 :: trip where
  "trip_1510 = \<lparr>Linea = ''Ruta 12'', Direccion = ''Ida'', Salida = hm_time 15 10, Llegada = hm_time 15 40\<rparr>"

definition trip_1530 :: trip where
  "trip_1530 = \<lparr>Linea = ''Ruta 160'', Direccion = ''Ida'', Salida = hm_time 15 30, Llegada = hm_time 16 0\<rparr>"

definition store3 :: "trip list" where
  "store3 = [trip_1450, trip_1510, trip_1530]"

definition at_1500 :: pydatetime where
  "at_1500 = \<lparr>day = 739000, clock = hm_time 15 0\<rparr>"

definition at_1400 :: pydatetime where
  "at_1400 = \<lparr>day = 739000, clock = hm_time 14 0\<rparr>"

definition at_1600 :: pydatetime where
  "at_1600 = \<lparr>day = 739000, clock = hm_time 16 0\<rparr>"

definition rx_refuse :: re_engine where
  "rx_refuse p s = Inl ReError"

section \<open>Notions of the specification\<close>

text \<open>
  The not-yet-departed trips of a direction: the rows whose direction equals the
  requested one up to case and whose departure, combined with today's date, is
  strictly after the current instant. They are listed in the store's order.
\<close>

definition not_departed :: "string \<Rightarrow> pydatetime \<Rightarrow> trip list \<Rightarrow> trip list" where
  "not_departed d now df =
     filter (\<lambda>r. str_lower (Direccion r) = str_lower d
                 \<and> instant now < instant (combine (day now) (Salida r))) df"

text \<open>The rows of a direction, departed or not.\<close>

definition of_direction :: "string \<Rightarrow> trip list \<Rightarrow> trip list" where
  "of_direction d df = filter (\<lambda>r. str_lower (Direccion r) = str_lower d) df"

text \<open>
  \<open>res\<close> is a choice of the first \<open>k\<close> rows of \<open>pool\<close> in ascending order of
  \<open>key\<close>: it is sorted, has \<open>k\<close> rows (or all of them when there are fewer), is
  drawn from the pool, and no row left out has a smaller key than a row taken.
\<close>

definition first_by :: "('a \<Rightarrow> int) \<Rightarrow> nat \<Rightarrow> 'a list \<Rightarrow> 'a list \<Rightarrow> bool" where
  "first_by key k pool res \<longleftrightarrow>
     sorted (map key res) \<and> length res = min k (length pool) \<and> mset res \<subseteq># mset pool
     \<and> (\<forall>r \<in> set res. \<forall>q \<in> set_mset (mset pool - mset res). key r \<le> key q)"

section \<open>The engine on a store of frames\<close>

text \<open>
  To state what a call does to the table it is given, frames become objects in a
  store: a frame is held at a reference, \<^verbatim>\<open>df[mask]\<close>, \<^verbatim>\<open>copy\<close>,
  \<^verbatim>\<open>sort_values\<close>, \<^verbatim>\<open>head\<close>, \<^verbatim>\<open>drop\<close>, \<^verbatim>\<open>pd.concat\<close> and \<^verbatim>\<open>pd.DataFrame()\<close>
  allocate a new frame, and \<^verbatim>\<open>df[col] = values\<close> changes the frame at its
  reference in place. A frame is its rows and the derived columns it has
  besides the four of the table, each with its dtype; within one call the cells
  of a derived column are determined by its name and the row
  (\<open>salida_datetime\<close>, \<open>llegada_datetime\<close>, \<open>diff_abs\<close>), so only the name
  and the dtype are stored. Reading a derived column that the frame does not
  have raises \<^verbatim>\<open>KeyError\<close>.
  References are positions in the store; every reference the engine uses is the
  one it was given or one it allocated.
\<close>

type_synonym ref = nat

record frame =
  derived :: "(string \<times> dtype) list"
  filas :: "trip list"

type_synonym heap = "frame list"

type_synonym 'a prog = "heap \<Rightarrow> (py_error + 'a) \<times> heap"

definition ret :: "'a \<Rightarrow> 'a prog" where
  "ret x h = (Inr x, h)"

definition raise :: "py_error \<Rightarrow> 'a prog" where
  "raise e h = (Inl e, h)"

definition bindE :: "'a prog \<Rightarrow> ('a \<Rightarrow> 'b prog) \<Rightarrow> 'b prog" where
  "bindE m f h = (case m h of (Inl e, h') \<Rightarrow> (Inl e, h') | (Inr x, h') \<Rightarrow> f x h')"

definition alloc :: "frame \<Rightarrow> ref prog" where
  "alloc f h = (Inr (length h), h @ [f])"

text \<open>\<^verbatim>\<open>pd.DataFrame()\<close>: a new frame with no rows and no columns.\<close>

definition DataFrame_new :: "ref prog" where
  "DataFrame_new = alloc \<lparr>derived = [], filas = []\<rparr>"

text \<open>\<^verbatim>\<open>df.empty\<close>.\<close>

definition is_empty :: "ref \<Rightarrow> bool prog" where
  "is_empty a h = (Inr (filas (h ! a) = []), h)"

text \<open>Reading the derived column \<^verbatim>\<open>df[col]\<close>.\<close>

definition read_col :: "ref \<Rightarrow> string \<Rightarrow> unit prog" where
  "read_col a col h =
     (case map_of (derived (h ! a)) col of
        None \<Rightarrow> (Inl KeyError, h)
      | Some dt \<Rightarrow> (Inr (), h))"

text \<open>
  \<^verbatim>\<open>(df[col] - instant).abs()\<close>: the values are not stored, so what is left of
  the expression is whether it can be computed.
\<close>

definition sub_abs :: "ref \<Rightarrow> string \<Rightarrow> unit prog" where
  "sub_abs a col h =
     (case map_of (derived (h ! a)) col of
        None \<Rightarrow> (Inl KeyError, h)
      | Some dt \<Rightarrow> if dt = ObjectDtype then (Inl TypeError, h) else (Inr (), h))"

text \<open>\<^verbatim>\<open>df[mask]\<close>, for a mask that is computed without failure and for one that may fail.\<close>

definition getitem_mask :: "ref \<Rightarrow> (trip \<Rightarrow> bool) \<Rightarrow> ref prog" where
  "getitem_mask a P h = alloc ((h ! a)\<lparr>filas := filter P (filas (h ! a))\<rparr>) h"

definition getitem_mask_res :: "ref \<Rightarrow> (trip \<Rightarrow> py_error + bool) \<Rightarrow> ref prog" where
  "getitem_mask_res a f h =
     (case filter_res f (filas (h ! a)) of
        Inl e \<Rightarrow> (Inl e, h)
      | Inr rows \<Rightarrow> alloc ((h ! a)\<lparr>filas := rows\<rparr>) h)"

text \<open>\<^verbatim>\<open>df.copy()\<close>.\<close>

definition copy :: "ref \<Rightarrow> ref prog" where
  "copy a h = alloc (h ! a) h"

text \<open>
  \<^verbatim>\<open>df[col] = values\<close>, for values of a given dtype: the one operation that
  changes a frame in place. \<^verbatim>\<open>df[col] = df[base].apply(f)\<close> is the case of lines
  88 and 89, where the dtype is the one \<^verbatim>\<open>apply\<close> gives on the rows of the frame.
\<close>

definition setitem :: "ref \<Rightarrow> string \<Rightarrow> dtype \<Rightarrow> unit prog" where
  "setitem a col dt h =
     (Inr (), h[a := (h ! a)\<lparr>derived := (col, dt) # filter (\<lambda>p. fst p \<noteq> col) (derived (h ! a))\<rparr>])"

definition setitem_apply :: "ref \<Rightarrow> string \<Rightarrow> unit prog" where
  "setitem_apply a col h = setitem a col (apply_dtype (filas (h ! a))) h"

text \<open>
  \<^verbatim>\<open>df.sort_values(by=col)\<close> for a column of the table, and for a derived
  column, ascending or descending.
\<close>

definition sort_by_base :: "ref \<Rightarrow> (trip \<Rightarrow> int) \<Rightarrow> ref prog" where
  "sort_by_base a k h = alloc ((h ! a)\<lparr>filas := sort_values k (filas (h ! a))\<rparr>) h"

definition sort_by_derived :: "ref \<Rightarrow> string \<Rightarrow> (trip \<Rightarrow> int) \<Rightarrow> ref prog" where
  "sort_by_derived a col k = bindE (read_col a col) (\<lambda>_. sort_by_base a k)"

definition sort_by_base_desc :: "ref \<Rightarrow> (trip \<Rightarrow> int) \<Rightarrow> ref prog" where
  "sort_by_base_desc a k h = alloc ((h ! a)\<lparr>filas := sort_values_desc k (filas (h ! a))\<rparr>) h"

definition sort_by_derived_desc :: "ref \<Rightarrow> string \<Rightarrow> (trip \<Rightarrow> int) \<Rightarrow> ref prog" where
  "sort_by_derived_desc a col k = bindE (read_col a col) (\<lambda>_. sort_by_base_desc a k)"

text \<open>\<^verbatim>\<open>df.head(n)\<close>.\<close>

definition head_st :: "ref \<Rightarrow> pyval \<Rightarrow> ref prog" where
  "head_st a n h =
     (case py_head n (filas (h ! a)) of
        Inl e \<Rightarrow> (Inl e, h)
      | Inr rows \<Rightarrow> alloc ((h ! a)\<lparr>filas := rows\<rparr>) h)"

text \<open>\<^verbatim>\<open>df.drop(col, axis=1)\<close>.\<close>

definition drop_col :: "ref \<Rightarrow> string \<Rightarrow> ref prog" where
  "drop_col a col =
     bindE (read_col a col)
       (\<lambda>_ h. alloc ((h ! a)\<lparr>derived := filter (\<lambda>p. fst p \<noteq> col) (derived (h ! a))\<rparr>) h)"

text \<open>\<^verbatim>\<open>pd.concat([a, b])\<close>: the rows of both, under the columns of both.\<close>

definition concat_st :: "ref \<Rightarrow> ref \<Rightarrow> ref prog" where
  "concat_st a b h =
     alloc \<lparr>derived = derived (h ! a) @ derived (h ! b),
            filas = filas (h ! a) @ filas (h ! b)\<rparr> h"

text \<open>The \<^verbatim>\<open>try\<close> block of lines 105 to 158, and the fall through to line 160.\<close>

definition try_except_ValueError :: "ref prog \<Rightarrow> ref prog" where
  "try_except_ValueError body h =
     (case body h of
        (Inl e, h') \<Rightarrow> if e = ValueError then DataFrame_new h' else (Inl e, h')
      | (Inr a, h') \<Rightarrow> (Inr a, h'))"

text \<open>Lines 73 to 80.\<close>

definition rama_linea_st :: "re_engine \<Rightarrow> ref \<Rightarrow> pyval \<Rightarrow> pyval \<Rightarrow> ref prog" where
  "rama_linea_st rx df micro_linea direccion =
     (case py_lower micro_linea of
        Inl e \<Rightarrow> raise e
      | Inr pat \<Rightarrow>
          bindE (getitem_mask_res df (\<lambda>r. re_search rx pat (str_lower (Linea r)))) (\<lambda>sel.
          bindE (copy sel) (\<lambda>df_filtrado.
          if truthy direccion
          then (case py_lower direccion of
                  Inl e \<Rightarrow> raise e
                | Inr d \<Rightarrow>
                    bindE (getitem_mask df_filtrado (\<lambda>r. str_lower (Direccion r) = d)) (\<lambda>sel.
                    bindE (copy sel) (\<lambda>df_filtrado.
                    sort_by_base df_filtrado (\<lambda>r. time_us (Salida r)))))
          else sort_by_base df_filtrado (\<lambda>r. time_us (Salida r)))))"

text \<open>Lines 93 to 101.\<close>

definition rama_ahora_st :: "pydatetime \<Rightarrow> ref \<Rightarrow> pyval \<Rightarrow> pyval \<Rightarrow> ref prog" where
  "rama_ahora_st now df_filtrado listado_completo cantidad =
     bindE (sort_by_derived df_filtrado ''salida_datetime'' (salida_datetime now)) (\<lambda>proximos.
     if truthy listado_completo then ret proximos
     else if cantidad \<noteq> PNone then head_st proximos cantidad
     else head_st proximos (PInt 3))"

text \<open>Lines 109 to 127.\<close>

definition rama_cerca_st :: "pydatetime \<Rightarrow> ref \<Rightarrow> pydatetime \<Rightarrow> ref prog" where
  "rama_cerca_st now df_filtrado hora_solicitada_dt =
     bindE (read_col df_filtrado ''llegada_datetime'') (\<lambda>_.
     bindE (getitem_mask df_filtrado
              (\<lambda>r. llegada_datetime now r \<le> instant hora_solicitada_dt)) (\<lambda>sel.
     bindE (copy sel) (\<lambda>micros_antes.
     bindE (read_col df_filtrado ''llegada_datetime'') (\<lambda>_.
     bindE (getitem_mask df_filtrado
              (\<lambda>r. llegada_datetime now r > instant hora_solicitada_dt)) (\<lambda>sel.
     bindE (copy sel) (\<lambda>micros_despues.
     bindE DataFrame_new (\<lambda>resultados.
     bindE (bindE (is_empty micros_antes) (\<lambda>e.
              if \<not> e
              then bindE (sort_by_derived_desc micros_antes ''llegada_datetime''
                            (llegada_datetime now)) (\<lambda>sorted_antes.
                   bindE (head_st sorted_antes (PInt 1)) (\<lambda>cercano_antes.
                   concat_st resultados cercano_antes))
              else ret resultados)) (\<lambda>resultados.
     bindE (bindE (is_empty micros_despues) (\<lambda>e.
              if \<not> e
              then bindE (sort_by_derived micros_despues ''llegada_datetime''
                            (llegada_datetime now)) (\<lambda>sorted_despues.
                   bindE (head_st sorted_despues (PInt 1)) (\<lambda>cercano_despues.
                   concat_st resultados cercano_despues))
              else ret resultados)) (\<lambda>resultados.
     sort_by_derived resultados ''llegada_datetime'' (llegada_datetime now))))))))))"

text \<open>
  Lines 132 to 141 and 146 to 155, with the comparison of the branch as the
  mask \<open>P\<close>.
\<close>

definition rama_rango_st ::
  "pydatetime \<Rightarrow> ref \<Rightarrow> (trip \<Rightarrow> bool) \<Rightarrow> pydatetime \<Rightarrow> pyval \<Rightarrow> pyval \<Rightarrow> ref prog" where
  "rama_rango_st now df_filtrado P hora_solicitada_dt listado_completo cantidad =
     bindE (read_col df_filtrado ''llegada_datetime'') (\<lambda>_.
     bindE (getitem_mask df_filtrado P) (\<lambda>sel.
     bindE (copy sel) (\<lambda>cercanos.
     bindE (sub_abs cercanos ''llegada_datetime'') (\<lambda>_.
     bindE (setitem cercanos ''diff'' Timedelta64) (\<lambda>_.
     bindE (sort_by_derived cercanos ''diff'' (diff_abs now hora_solicitada_dt)) (\<lambda>sorted_cercanos.
     bindE (drop_col sorted_cercanos ''diff'') (\<lambda>cercanos.
     if truthy listado_completo then ret cercanos
     else if cantidad \<noteq> PNone then head_st cercanos cantidad
     else ret cercanos)))))))"

text \<open>Lines 104 to 160.\<close>

definition rama_hora_st ::
  "pydatetime \<Rightarrow> ref \<Rightarrow> pyval \<Rightarrow> pyval \<Rightarrow> pyval \<Rightarrow> pyval \<Rightarrow> ref prog" where
  "rama_hora_st now df_filtrado hora_str condicion_horario listado_completo cantidad =
     try_except_ValueError
       (case py_strptime hora_str of
          Inl e \<Rightarrow> raise e
        | Inr t \<Rightarrow>
            (let hora_solicitada_dt = combine (day now) t
             in if condicion_horario = PStr ''cerca''
                then rama_cerca_st now df_filtrado hora_solicitada_dt
                else if condicion_horario = PStr ''antes_de''
                then rama_rango_st now df_filtrado
                       (\<lambda>r. llegada_datetime now r < instant hora_solicitada_dt)
                       hora_solicitada_dt listado_completo cantidad
                else if condicion_horario = PStr ''despues_de''
                then rama_rango_st now df_filtrado
                       (\<lambda>r. llegada_datetime now r \<ge> instant hora_solicitada_dt)
                       hora_solicitada_dt listado_completo cantidad
                else DataFrame_new))"

text \<open>
  Lines 43 to 160, on the table at reference \<open>df\<close>: the reference of the
  returned frame, or the exception, and the store after the call.
\<close>

definition buscar_horarios_st :: "re_engine \<Rightarrow> ref \<Rightarrow> pydatetime \<Rightarrow> intent \<Rightarrow> ref prog" where
  "buscar_horarios_st rx df now intent =
     bindE (is_empty df) (\<lambda>e.
     if e then DataFrame_new
     else
       let direccion = first_of_list (dict_get intent ''direccion'');
           hora_str = dict_get intent ''hora'';
           condicion_horario = dict_get intent ''condicion_horario'';
           cantidad = dict_get intent ''cantidad'';
           listado_completo = dict_get_default intent ''listado_completo'' (PBool False);
           micro_linea = first_of_list (dict_get intent ''micro_linea'')
       in if truthy micro_linea then rama_linea_st rx df micro_linea direccion
          else if \<not> truthy direccion then DataFrame_new
          else (case py_lower direccion of
                  Inl e \<Rightarrow> raise e
                | Inr d \<Rightarrow>
                    bindE (getitem_mask df (\<lambda>r. str_lower (Direccion r) = d)) (\<lambda>sel.
                    bindE (copy sel) (\<lambda>df_filtrado.
                    bindE (setitem_apply df_filtrado ''salida_datetime'') (\<lambda>_.
                    bindE (setitem_apply df_filtrado ''llegada_datetime'') (\<lambda>_.
                    bindE (read_col df_filtrado ''salida_datetime'') (\<lambda>_.
                    bindE (getitem_mask df_filtrado
                             (\<lambda>r. salida_datetime now r > instant now)) (\<lambda>df_filtrado.
                    if hora_str = PStr ''ahora''
                    then rama_ahora_st now df_filtrado listado_completo cantidad
                    else if truthy hora_str
                    then rama_hora_st now df_filtrado hora_str condicion_horario
                           listado_completo cantidad
                    else DataFrame_new))))))))"

text \<open>
  An outcome of the engine on the store agrees with a result of the engine on
  rows when the store before the call is an initial segment of the store after
  it, and either both raise the same exception or the returned reference holds
  a frame with the rows of the result.
\<close>

definition agrees :: "heap \<Rightarrow> (py_error + ref) \<times> heap \<Rightarrow> py_error + trip list \<Rightarrow> bool" where
  "agrees h out p \<longleftrightarrow>
     prefix h (snd out)
     \<and> (case fst out of
          Inl e \<Rightarrow> p = Inl e
        | Inr b \<Rightarrow> length h \<le> b \<and> b < length (snd out) \<and> p = Inr (filas (snd out ! b)))"

text \<open>A store that holds the table of the scenarios, and nothing else.\<close>

definition store_heap :: heap where
  "store_heap = [\<lparr>derived = [], filas = store3\<rparr>]"

section \<open>Facts about the library functions\<close>

lemma set_sort_values: "set (sort_values k xs) = set xs"
  by (simp add: sort_values_def)

lemma mset_sort_values: "mset (sort_values k xs) = mset xs"
  by (simp add: sort_values_def)

lemma sorted_sort_values: "sorted (map k (sort_values k xs))"
  by (simp add: sort_values_def)

lemma set_sort_values_desc: "set (sort_values_desc k xs) = set xs"
  by (simp add: sort_values_desc_def)

lemma set_head_rows: "set (head_rows n xs) \<subseteq> set xs"
  by (auto simp: head_rows_def dest: in_set_takeD)

lemma sorted_head_rows: "sorted (map k xs) \<Longrightarrow> sorted (map k (head_rows n xs))"
  by (simp add: head_rows_def take_map [symmetric] sorted_wrt_take del: take_map)

lemma py_head_set: "py_head c xs = Inr res \<Longrightarrow> set res \<subseteq> set xs"
  by (cases c) (auto dest: subsetD [OF set_head_rows])

lemma except_ValueError_Inr:
  "except_ValueError body = Inr res \<Longrightarrow> body = Inr res \<or> (body = Inl ValueError \<and> res = [])"
  by (auto simp: except_ValueError_def split: sum.splits if_splits)

text \<open>Unfolding rules that evaluate the engine on the scenario data.\<close>

lemmas engine_defs =
  buscar_horarios_def rama_linea_def rama_ahora_def rama_hora_def rama_cerca_def
  rama_rango_def except_ValueError_def concat_frames_def diff_abs_def
  salida_datetime_def llegada_datetime_def dict_get_def dict_get_default_def

lemmas library_defs =
  str_lower_def lower_char_def instant_def combine_def time_us_def hm_time_def apply_dtype_def
  is_digit_def digit_val_def re_search_def re_special_def sort_values_def
  sort_values_desc_def head_rows_def

lemmas scenario_defs =
  trip_1450_def trip_1510_def trip_1530_def store3_def at_1400_def at_1500_def at_1600_def
  rx_refuse_def

section \<open>Every branch returns rows of the frame it was given\<close>

lemma rama_ahora_set: "rama_ahora now xs l c = Inr res \<Longrightarrow> set res \<subseteq> set xs"
  using set_head_rows [of 3 "sort_values (salida_datetime now) xs"]
    py_head_set [of c "sort_values (salida_datetime now) xs" res]
  by (auto simp: rama_ahora_def Let_def set_sort_values split: if_splits)

lemma rama_rango_set: "rama_rango now dt xs T l c = Inr res \<Longrightarrow> set res \<subseteq> set xs"
  using py_head_set [of c "sort_values (diff_abs now T) xs" res]
  by (auto simp: rama_rango_def Let_def set_sort_values split: if_splits)

lemma rama_cerca_set: "rama_cerca now xs T = Inr res \<Longrightarrow> set res \<subseteq> set xs"
  using set_head_rows [of 1 "sort_values_desc (llegada_datetime now)
          (filter (\<lambda>r. llegada_datetime now r \<le> instant T) xs)"]
    set_head_rows [of 1 "sort_values (llegada_datetime now)
          (filter (\<lambda>r. llegada_datetime now r > instant T) xs)"]
  by (auto simp: rama_cerca_def Let_def concat_frames_def set_sort_values
      set_sort_values_desc split: if_splits)

lemma rama_hora_set: "rama_hora now dt xs h co l c = Inr res \<Longrightarrow> set res \<subseteq> set xs"
  unfolding rama_hora_def
  by (auto dest!: except_ValueError_Inr rama_cerca_set rama_rango_set simp: Let_def
      split: sum.splits if_splits)

section \<open>Departed trips\<close>

text \<open>
  Claim C1. When no line filter is in force, every trip of a returned result
  departs strictly after the current instant, whichever time branch produced
  it: lines 88 to 90 drop the departed rows before any branch runs, and each
  branch only selects among the rows that are left.
\<close>

theorem departed_never_returned:
  assumes "\<not> truthy (first_of_list (dict_get intent ''micro_linea''))"
    and "buscar_horarios rx df now intent = Inr res"
    and "r \<in> set res"
  shows "instant now < instant (combine (day now) (Salida r))"
proof -
  have "set res \<subseteq> {r. instant now < salida_datetime now r}"
    using assms(1,2) unfolding buscar_horarios_def
    by (auto simp: Let_def split: if_splits sum.splits dest!: rama_ahora_set rama_hora_set)
  with assms(3) show ?thesis by (auto simp: salida_datetime_def)
qed

theorem departed_never_returned_witness:
  "\<not> truthy (first_of_list (dict_get [''direccion'' \<mapsto> PStr ''Ida'', ''hora'' \<mapsto> PStr ''ahora'']
        ''micro_linea''))
   \<and> buscar_horarios rx_refuse store3 at_1500
        [''direccion'' \<mapsto> PStr ''Ida'', ''hora'' \<mapsto> PStr ''ahora''] = Inr [trip_1510, trip_1530]
   \<and> trip_1510 \<in> set [trip_1510, trip_1530]
   \<and> instant at_1500 < instant (combine (day at_1500) (Salida trip_1510))"
proof -
  let ?i = "[''direccion'' \<mapsto> PStr ''Ida'', ''hora'' \<mapsto> PStr ''ahora'']"
  have h1: "\<not> truthy (first_of_list (dict_get ?i ''micro_linea''))"
    by (simp add: dict_get_def)
  have h2: "buscar_horarios rx_refuse store3 at_1500 ?i = Inr [trip_1510, trip_1530]"
    by (simp add: engine_defs library_defs scenario_defs)
  have h3: "trip_1510 \<in> set [trip_1510, trip_1530]"
    by simp
  from departed_never_returned [OF h1 h2 h3] h1 h2 h3 show ?thesis
    by blast
qed

section \<open>Queries by direction\<close>


text \<open>
  With the line filter absent and the direction a non-empty string, the engine
  is its time branch applied to the not-yet-departed trips of the direction,
  with the dtype that the rows of the direction give the derived columns.
\<close>

lemma buscar_direccion:
  assumes "\<not> truthy (first_of_list (dict_get intent ''micro_linea''))"
    and "first_of_list (dict_get intent ''direccion'') = PStr d" and "d \<noteq> []"
  shows "buscar_horarios rx df now intent =
     (if df = [] then Inr []
      else if dict_get intent ''hora'' = PStr ''ahora''
      then rama_ahora now (not_departed d now df)
             (dict_get_default intent ''listado_completo'' (PBool False)) (dict_get intent ''cantidad'')
      else if truthy (dict_get intent ''hora'')
      then rama_hora now (apply_dtype (of_direction d df)) (not_departed d now df)
             (dict_get intent ''hora'') (dict_get intent ''condicion_horario'')
             (dict_get_default intent ''listado_completo'' (PBool False)) (dict_get intent ''cantidad'')
      else Inr [])"
  using assms
  by (simp add: buscar_horarios_def Let_def not_departed_def of_direction_def salida_datetime_def)

lemma no_direction_empty:
  assumes "\<not> truthy (first_of_list (dict_get intent ''micro_linea''))"
    and "\<not> truthy (first_of_list (dict_get intent ''direccion''))"
  shows "buscar_horarios rx df now intent = Inr []"
  using assms by (simp add: buscar_horarios_def Let_def)

lemma no_usable_time_empty:
  assumes m: "\<not> truthy (first_of_list (dict_get intent ''micro_linea''))"
    and d: "first_of_list (dict_get intent ''direccion'') = PStr d"
    and c: "\<not> truthy (dict_get intent ''hora'')
          \<or> (dict_get intent ''hora'' = PStr h \<and> h \<noteq> ''ahora'' \<and> strptime_HM h = Inl ValueError)
          \<or> (dict_get intent ''hora'' = PStr h \<and> strptime_HM h = Inr t
              \<and> dict_get intent ''condicion_horario'' \<noteq> PStr ''cerca''
              \<and> dict_get intent ''condicion_horario'' \<noteq> PStr ''antes_de''
              \<and> dict_get intent ''condicion_horario'' \<noteq> PStr ''despues_de'')"
  shows "buscar_horarios rx df now intent = Inr []"
proof (cases "d = []")
  case True
  with m d show ?thesis by (simp add: no_direction_empty)
next
  case False
  from c show ?thesis
    unfolding buscar_direccion [OF m d False]
    by (auto simp: rama_hora_def except_ValueError_def is_digit_def Let_def)
qed

text \<open>
  Claim C8. The engine returns the empty result when the store is empty,
  whatever the intent; and, with no line filter, when the direction is unset,
  when the direction is a string and the time is absent, when the time
  is a string other than the sentinel that \<^verbatim>\<open>strptime\<close> refuses, and when the
  time parses but the relation is none of \<^verbatim>\<open>cerca\<close>, \<^verbatim>\<open>antes_de\<close>, \<^verbatim>\<open>despues_de\<close>.
\<close>

theorem degenerate_cases_empty:
  "buscar_horarios rx [] now intent0 = Inr []
   \<and> (\<not> truthy (first_of_list (dict_get intent ''micro_linea'')) \<longrightarrow>
        (\<not> truthy (first_of_list (dict_get intent ''direccion''))
           \<longrightarrow> buscar_horarios rx df now intent = Inr [])
      \<and> (first_of_list (dict_get intent ''direccion'') = PStr d \<longrightarrow>
           (\<not> truthy (dict_get intent ''hora'')
              \<longrightarrow> buscar_horarios rx df now intent = Inr [])
         \<and> (dict_get intent ''hora'' = PStr h \<and> h \<noteq> ''ahora'' \<and> strptime_HM h = Inl ValueError
              \<longrightarrow> buscar_horarios rx df now intent = Inr [])
         \<and> (dict_get intent ''hora'' = PStr h \<and> strptime_HM h = Inr t
              \<and> dict_get intent ''condicion_horario'' \<noteq> PStr ''cerca''
              \<and> dict_get intent ''condicion_horario'' \<noteq> PStr ''antes_de''
              \<and> dict_get intent ''condicion_horario'' \<noteq> PStr ''despues_de''
              \<longrightarrow> buscar_horarios rx df now intent = Inr [])))"
proof -
  have "buscar_horarios rx [] now intent0 = Inr []"
    by (simp add: buscar_horarios_def)
  then show ?thesis
    using no_direction_empty [of intent rx df now] no_usable_time_empty [of intent d h t rx df now]
    by blast
qed

theorem degenerate_cases_empty_witness:
  "buscar_horarios rx_refuse [] at_1500
      [''direccion'' \<mapsto> PStr ''Ida'', ''hora'' \<mapsto> PStr ''ahora''] = Inr []
   \<and> buscar_horarios rx_refuse store3 at_1500 [''hora'' \<mapsto> PStr ''ahora''] = Inr []
   \<and> buscar_horarios rx_refuse store3 at_1500 [''direccion'' \<mapsto> PStr ''Ida''] = Inr []
   \<and> strptime_HM ''25:00'' = Inl ValueError
   \<and> buscar_horarios rx_refuse store3 at_1500
        [''direccion'' \<mapsto> PStr ''Ida'', ''hora'' \<mapsto> PStr ''25:00'',
         ''condicion_horario'' \<mapsto> PStr ''cerca''] = Inr []
   \<and> strptime_HM ''15:30'' = Inr (hm_time 15 30)
   \<and> buscar_horarios rx_refuse store3 at_1500
        [''direccion'' \<mapsto> PStr ''Ida'', ''hora'' \<mapsto> PStr ''15:30''] = Inr []"
proof -
  have p1: "strptime_HM ''25:00'' = Inl ValueError"
    by (simp add: is_digit_def digit_val_def)
  have p2: "strptime_HM ''15:30'' = Inr (hm_time 15 30)"
    by (simp add: is_digit_def digit_val_def)
  have c1: "buscar_horarios rx_refuse [] at_1500
      [''direccion'' \<mapsto> PStr ''Ida'', ''hora'' \<mapsto> PStr ''ahora''] = Inr []"
    using degenerate_cases_empty [where rx = rx_refuse and now = at_1500
        and ?intent0.0 = "[''direccion'' \<mapsto> PStr ''Ida'', ''hora'' \<mapsto> PStr ''ahora'']"]
    by blast
  have c2: "buscar_horarios rx_refuse store3 at_1500 [''hora'' \<mapsto> PStr ''ahora''] = Inr []"
    using degenerate_cases_empty [where rx = rx_refuse and now = at_1500 and df = store3
        and intent = "[''hora'' \<mapsto> PStr ''ahora'']"]
    by (simp add: dict_get_def)
  have c3: "buscar_horarios rx_refuse store3 at_1500 [''direccion'' \<mapsto> PStr ''Ida''] = Inr []"
    using degenerate_cases_empty [where rx = rx_refuse and now = at_1500 and df = store3
        and intent = "[''direccion'' \<mapsto> PStr ''Ida'']" and d = "''Ida''"]
    by (simp add: dict_get_def)
  have c4: "buscar_horarios rx_refuse store3 at_1500
        [''direccion'' \<mapsto> PStr ''Ida'', ''hora'' \<mapsto> PStr ''25:00'',
         ''condicion_horario'' \<mapsto> PStr ''cerca''] = Inr []"
    using p1 degenerate_cases_empty [where rx = rx_refuse and now = at_1500 and df = store3
        and intent = "[''direccion'' \<mapsto> PStr ''Ida'', ''hora'' \<mapsto> PStr ''25:00'',
         ''condicion_horario'' \<mapsto> PStr ''cerca'']" and d = "''Ida''" and h = "''25:00''"]
    by (simp add: dict_get_def)
  have c5: "buscar_horarios rx_refuse store3 at_1500
        [''direccion'' \<mapsto> PStr ''Ida'', ''hora'' \<mapsto> PStr ''15:30''] = Inr []"
    using p2 degenerate_cases_empty [where rx = rx_refuse and now = at_1500 and df = store3
        and intent = "[''direccion'' \<mapsto> PStr ''Ida'', ''hora'' \<mapsto> PStr ''15:30'']"
        and d = "''Ida''" and h = "''15:30''" and t = "hm_time 15 30"]
    by (simp add: dict_get_def)
  from p1 p2 c1 c2 c3 c4 c5 show ?thesis
    by blast
qed

section \<open>The window of the next departures\<close>

lemma take_first_by:
  assumes "sorted (map key xs)"
  shows "first_by key k xs (take k xs)"
proof -
  have m: "mset xs = mset (take k xs) + mset (drop k xs)"
    by (metis append_take_drop_id mset_append)
  have s: "sorted (map key (take k xs @ drop k xs))"
    using assms by simp
  have "\<forall>r \<in> set (take k xs). \<forall>q \<in> set (drop k xs). key r \<le> key q"
    using s unfolding map_append sorted_append by auto
  moreover have "mset xs - mset (take k xs) = mset (drop k xs)"
    by (subst m) simp
  moreover have "sorted (map key (take k xs))"
    using s unfolding map_append sorted_append by blast
  moreover have "mset (take k xs) \<subseteq># mset xs"
    by (subst m) simp
  ultimately show ?thesis
    by (simp add: first_by_def)
qed

lemma first_by_cong_mset:
  "mset pool = mset pool' \<Longrightarrow> first_by key k pool res \<Longrightarrow> first_by key k pool' res"
  by (auto simp: first_by_def dest: mset_eq_length)

lemma head_rows_first_by:
  "0 \<le> n \<Longrightarrow> first_by key (nat n) pool (head_rows n (sort_values key pool))"
  using take_first_by [where key = key and xs = "sort_values key pool" and k = "nat n",
      OF sorted_sort_values]
  by (auto simp: head_rows_def intro: first_by_cong_mset [OF mset_sort_values])


text \<open>
  Claim C4. With no line filter, the direction a non-empty string and the time
  the sentinel \<^verbatim>\<open>ahora\<close>, the result is drawn from the not-yet-departed trips of
  the direction and is in ascending order of departure: all of them under a full
  listing; otherwise the first \<open>n\<close> for a count \<open>n\<close> that is not negative; and
  with neither, the first three, or all when fewer qualify.
\<close>

theorem ahora_window:
  assumes "\<not> truthy (first_of_list (dict_get intent ''micro_linea''))"
    and "first_of_list (dict_get intent ''direccion'') = PStr d" and "d \<noteq> []"
    and "dict_get intent ''hora'' = PStr ''ahora''"
  shows "(truthy (dict_get_default intent ''listado_completo'' (PBool False)) \<longrightarrow>
           (\<exists>res. buscar_horarios rx df now intent = Inr res
                \<and> sorted (map (salida_datetime now) res)
                \<and> mset res = mset (not_departed d now df)))
       \<and> (\<not> truthy (dict_get_default intent ''listado_completo'' (PBool False))
            \<and> dict_get intent ''cantidad'' = PInt n \<and> 0 \<le> n \<longrightarrow>
           (\<exists>res. buscar_horarios rx df now intent = Inr res
                \<and> first_by (salida_datetime now) (nat n) (not_departed d now df) res))
       \<and> (\<not> truthy (dict_get_default intent ''listado_completo'' (PBool False))
            \<and> dict_get intent ''cantidad'' = PNone \<longrightarrow>
           (\<exists>res. buscar_horarios rx df now intent = Inr res
                \<and> first_by (salida_datetime now) 3 (not_departed d now df) res))"
proof (cases "df = []")
  case True
  then show ?thesis
    by (simp add: buscar_horarios_def not_departed_def first_by_def)
next
  case False
  have b: "buscar_horarios rx df now intent =
      rama_ahora now (not_departed d now df)
        (dict_get_default intent ''listado_completo'' (PBool False)) (dict_get intent ''cantidad'')"
    using False assms(4) by (simp add: buscar_direccion [OF assms(1-3)])
  show ?thesis
    unfolding b rama_ahora_def Let_def
    using head_rows_first_by [of n "salida_datetime now" "not_departed d now df"]
      head_rows_first_by [of 3 "salida_datetime now" "not_departed d now df"]
    by (auto simp: sorted_sort_values mset_sort_values)
qed

theorem ahora_window_witness:
  "first_of_list (dict_get [''direccion'' \<mapsto> PStr ''Ida'', ''hora'' \<mapsto> PStr ''ahora''] ''direccion'')
     = PStr ''Ida''
   \<and> not_departed ''Ida'' at_1500 store3 = [trip_1510, trip_1530]
   \<and> (\<exists>res. buscar_horarios rx_refuse store3 at_1500
               [''direccion'' \<mapsto> PStr ''Ida'', ''hora'' \<mapsto> PStr ''ahora''] = Inr res
          \<and> first_by (salida_datetime at_1500) 3 (not_departed ''Ida'' at_1500 store3) res)
   \<and> (\<exists>res. buscar_horarios rx_refuse store3 at_1500
               [''direccion'' \<mapsto> PStr ''Ida'', ''hora'' \<mapsto> PStr ''ahora'', ''cantidad'' \<mapsto> PInt 1]
             = Inr res
          \<and> first_by (salida_datetime at_1500) 1 (not_departed ''Ida'' at_1500 store3) res)
   \<and> (\<exists>res. buscar_horarios rx_refuse store3 at_1500
               [''direccion'' \<mapsto> PStr ''Ida'', ''hora'' \<mapsto> PStr ''ahora'',
                ''cantidad'' \<mapsto> PInt 1, ''listado_completo'' \<mapsto> PBool True] = Inr res
          \<and> sorted (map (salida_datetime at_1500) res)
          \<and> mset res = mset (not_departed ''Ida'' at_1500 store3))"
proof -
  have h: "first_of_list (dict_get [''direccion'' \<mapsto> PStr ''Ida'', ''hora'' \<mapsto> PStr ''ahora'']
      ''direccion'') = PStr ''Ida''"
    by (simp add: dict_get_def)
  have q: "not_departed ''Ida'' at_1500 store3 = [trip_1510, trip_1530]"
    by (simp add: not_departed_def library_defs scenario_defs)
  have c1: "\<exists>res. buscar_horarios rx_refuse store3 at_1500
               [''direccion'' \<mapsto> PStr ''Ida'', ''hora'' \<mapsto> PStr ''ahora''] = Inr res
          \<and> first_by (salida_datetime at_1500) 3 (not_departed ''Ida'' at_1500 store3) res"
    using ahora_window [where intent = "[''direccion'' \<mapsto> PStr ''Ida'', ''hora'' \<mapsto> PStr ''ahora'']"
        and d = "''Ida''" and rx = rx_refuse and df = store3 and now = at_1500]
    by (simp add: dict_get_def dict_get_default_def)
  have c2: "\<exists>res. buscar_horarios rx_refuse store3 at_1500
               [''direccion'' \<mapsto> PStr ''Ida'', ''hora'' \<mapsto> PStr ''ahora'', ''cantidad'' \<mapsto> PInt 1]
             = Inr res
          \<and> first_by (salida_datetime at_1500) 1 (not_departed ''Ida'' at_1500 store3) res"
    using ahora_window [where intent = "[''direccion'' \<mapsto> PStr ''Ida'', ''hora'' \<mapsto> PStr ''ahora'',
          ''cantidad'' \<mapsto> PInt 1]"
        and d = "''Ida''" and rx = rx_refuse and df = store3 and now = at_1500 and n = 1]
    by (simp add: dict_get_def dict_get_default_def)
  have c3: "\<exists>res. buscar_horarios rx_refuse store3 at_1500
               [''direccion'' \<mapsto> PStr ''Ida'', ''hora'' \<mapsto> PStr ''ahora'',
                ''cantidad'' \<mapsto> PInt 1, ''listado_completo'' \<mapsto> PBool True] = Inr res
          \<and> sorted (map (salida_datetime at_1500) res)
          \<and> mset res = mset (not_departed ''Ida'' at_1500 store3)"
    using ahora_window [where intent = "[''direccion'' \<mapsto> PStr ''Ida'', ''hora'' \<mapsto> PStr ''ahora'',
          ''cantidad'' \<mapsto> PInt 1, ''listado_completo'' \<mapsto> PBool True]"
        and d = "''Ida''" and rx = rx_refuse and df = store3 and now = at_1500]
    by (simp add: dict_get_def dict_get_default_def)
  from h q c1 c2 c3 show ?thesis
    by blast
qed

section \<open>Arrival before or after a requested time\<close>

lemma mset_head_rows: "mset (head_rows n xs) \<subseteq># mset xs"
proof -
  have "mset (take k xs) \<subseteq># mset xs" for k
    by (metis append_take_drop_id mset_append mset_subset_eq_add_left)
  then show ?thesis by (simp add: head_rows_def)
qed

lemma apply_dtype_object: "apply_dtype rows = ObjectDtype \<longleftrightarrow> rows = []"
  by (simp add: apply_dtype_def)



lemma rama_rango_result:
  assumes "truthy l \<or> c = PNone \<or> (\<exists>n. c = PInt n)" and "dt \<noteq> ObjectDtype"
  shows "\<exists>res. rama_rango now dt xs T l c = Inr res
           \<and> sorted (map (diff_abs now T) res) \<and> mset res \<subseteq># mset xs
           \<and> (truthy l \<or> c = PNone \<longrightarrow> mset res = mset xs)"
proof -
  have "sorted (map (diff_abs now T) (head_rows n (sort_values (diff_abs now T) xs)))" for n
    by (rule sorted_head_rows) (rule sorted_sort_values)
  moreover have "mset (head_rows n (sort_values (diff_abs now T) xs)) \<subseteq># mset xs" for n
    using mset_head_rows [of n "sort_values (diff_abs now T) xs"] by (simp add: mset_sort_values)
  ultimately show ?thesis
    using assms by (auto simp: rama_rango_def Let_def sorted_sort_values mset_sort_values)
qed

text \<open>
  All instants of one call carry today's date, so comparing two of them, and
  the distance between them, is that of the times of day.
\<close>

lemma llegada_less: "llegada_datetime now r < instant (combine (day now) t) \<longleftrightarrow> time_us (Llegada r) < time_us t"
  by (simp add: llegada_datetime_def instant_def combine_def)

lemma llegada_ge: "llegada_datetime now r \<ge> instant (combine (day now) t) \<longleftrightarrow> time_us (Llegada r) \<ge> time_us t"
  by (simp add: llegada_datetime_def instant_def combine_def)

lemma diff_abs_time: "diff_abs now (combine (day now) t) r = \<bar>time_us (Llegada r) - time_us t\<bar>"
  by (simp add: diff_abs_def llegada_datetime_def instant_def combine_def)

lemma buscar_rango:
  assumes m: "\<not> truthy (first_of_list (dict_get intent ''micro_linea''))"
      "first_of_list (dict_get intent ''direccion'') = PStr d" "d \<noteq> []"
    and h: "dict_get intent ''hora'' = PStr h" "strptime_HM h = Inr t"
    and ne: "df \<noteq> []"
  shows "(dict_get intent ''condicion_horario'' = PStr ''antes_de'' \<longrightarrow>
          buscar_horarios rx df now intent =
            except_ValueError (rama_rango now (apply_dtype (of_direction d df))
              (filter (\<lambda>r. time_us (Llegada r) < time_us t) (not_departed d now df))
              (combine (day now) t)
              (dict_get_default intent ''listado_completo'' (PBool False)) (dict_get intent ''cantidad'')))
       \<and> (dict_get intent ''condicion_horario'' = PStr ''despues_de'' \<longrightarrow>
          buscar_horarios rx df now intent =
            except_ValueError (rama_rango now (apply_dtype (of_direction d df))
              (filter (\<lambda>r. time_us (Llegada r) \<ge> time_us t) (not_departed d now df))
              (combine (day now) t)
              (dict_get_default intent ''listado_completo'' (PBool False)) (dict_get intent ''cantidad'')))"
proof -
  have "h \<noteq> ''ahora''" "h \<noteq> []"
    using h(2) by (auto simp: is_digit_def)
  then show ?thesis
    using ne h
    by (simp add: buscar_direccion [OF m] rama_hora_def Let_def llegada_less llegada_ge)
qed

text \<open>
  What \<^verbatim>\<open>antes_de\<close> and \<^verbatim>\<open>despues_de\<close> return when the table has a row of the
  direction: among the not-yet-departed trips of the direction, those arriving
  strictly before the requested time, respectively at it or later, closest
  arrival first; all of them unless a count caps a partial listing.
\<close>

lemma antes_despues_with_rows:
  assumes m: "\<not> truthy (first_of_list (dict_get intent ''micro_linea''))"
      "first_of_list (dict_get intent ''direccion'') = PStr d" "d \<noteq> []"
    and h: "dict_get intent ''hora'' = PStr h" "strptime_HM h = Inr t"
    and c: "truthy (dict_get_default intent ''listado_completo'' (PBool False))
         \<or> dict_get intent ''cantidad'' = PNone \<or> (\<exists>n. dict_get intent ''cantidad'' = PInt n)"
    and rows: "of_direction d df \<noteq> []"
  shows "(dict_get intent ''condicion_horario'' = PStr ''antes_de'' \<longrightarrow>
           (\<exists>res. buscar_horarios rx df now intent = Inr res
              \<and> sorted (map (\<lambda>r. \<bar>time_us (Llegada r) - time_us t\<bar>) res)
              \<and> mset res \<subseteq># mset (filter (\<lambda>r. time_us (Llegada r) < time_us t) (not_departed d now df))
              \<and> (\<not> truthy (dict_get_default intent ''listado_completo'' (PBool False))
                   \<and> dict_get intent ''cantidad'' = PNone \<longrightarrow>
                  mset res = mset (filter (\<lambda>r. time_us (Llegada r) < time_us t)
                                    (not_departed d now df)))))
       \<and> (dict_get intent ''condicion_horario'' = PStr ''despues_de'' \<longrightarrow>
           (\<exists>res. buscar_horarios rx df now intent = Inr res
              \<and> sorted (map (\<lambda>r. \<bar>time_us (Llegada r) - time_us t\<bar>) res)
              \<and> mset res \<subseteq># mset (filter (\<lambda>r. time_us (Llegada r) \<ge> time_us t) (not_departed d now df))
              \<and> (\<not> truthy (dict_get_default intent ''listado_completo'' (PBool False))
                   \<and> dict_get intent ''cantidad'' = PNone \<longrightarrow>
                  mset res = mset (filter (\<lambda>r. time_us (Llegada r) \<ge> time_us t)
                                    (not_departed d now df)))))"
proof -
  have ne: "df \<noteq> []"
    using rows by (auto simp: of_direction_def)
  have dt: "apply_dtype (of_direction d df) \<noteq> ObjectDtype"
    using rows by (simp add: apply_dtype_object)
  have k: "diff_abs now (combine (day now) t) = (\<lambda>r. \<bar>time_us (Llegada r) - time_us t\<bar>)"
    by (rule ext) (rule diff_abs_time)
  have e: "\<exists>res. except_ValueError (rama_rango now (apply_dtype (of_direction d df)) xs
        (combine (day now) t) l c) = Inr res
      \<and> sorted (map (\<lambda>r. \<bar>time_us (Llegada r) - time_us t\<bar>) res) \<and> mset res \<subseteq># mset xs
      \<and> (truthy l \<or> c = PNone \<longrightarrow> mset res = mset xs)"
    if "truthy l \<or> c = PNone \<or> (\<exists>n. c = PInt n)" for xs l c
    using rama_rango_result [OF that dt, of now xs "combine (day now) t"]
    by (auto simp: except_ValueError_def k)
  show ?thesis
    using buscar_rango [OF m h ne, of rx now]
      e [OF c, of "filter (\<lambda>r. time_us (Llegada r) < time_us t) (not_departed d now df)"]
      e [OF c, of "filter (\<lambda>r. time_us (Llegada r) \<ge> time_us t) (not_departed d now df)"]
    by auto
qed


text \<open>The order is that of the distance to the requested time: at 14:00, before 16:00.\<close>

lemma antes_de_closest_first:
  "buscar_horarios rx_refuse store3 at_1400
     [''direccion'' \<mapsto> PStr ''Ida'', ''hora'' \<mapsto> PStr ''16:00'',
      ''condicion_horario'' \<mapsto> PStr ''antes_de''] = Inr [trip_1510, trip_1450]"
  by (simp add: engine_defs library_defs scenario_defs)

text \<open>
  Claim C3, on the table of three outbound trips at 15:00, for the direction
  \<^verbatim>\<open>Vuelta\<close> and the time 16:00. No row has the direction, so nothing qualifies
  and the claim has the engine select nothing; the engine raises \<^verbatim>\<open>TypeError\<close>
  under \<^verbatim>\<open>antes_de\<close> and under \<^verbatim>\<open>despues_de\<close>. Lines 88 and 89 ran on a frame
  without rows, the derived columns have the dtype \<^verbatim>\<open>object\<close>, and line 133
  (147) subtracts from one; \<^verbatim>\<open>except ValueError\<close> lets the error pass. The
  sibling branch \<^verbatim>\<open>ahora\<close> returns the empty result on the same table and
  direction.
\<close>

theorem antes_despues_without_direction_rows_raises:
  "of_direction ''Vuelta'' store3 = []
   \<and> buscar_horarios rx_refuse store3 at_1500
        [''direccion'' \<mapsto> PStr ''Vuelta'', ''hora'' \<mapsto> PStr ''16:00'',
         ''condicion_horario'' \<mapsto> PStr ''antes_de''] = Inl TypeError
   \<and> buscar_horarios rx_refuse store3 at_1500
        [''direccion'' \<mapsto> PStr ''Vuelta'', ''hora'' \<mapsto> PStr ''16:00'',
         ''condicion_horario'' \<mapsto> PStr ''despues_de''] = Inl TypeError
   \<and> buscar_horarios rx_refuse store3 at_1500
        [''direccion'' \<mapsto> PStr ''Vuelta'', ''hora'' \<mapsto> PStr ''ahora''] = Inr []"
  by (simp add: of_direction_def engine_defs library_defs scenario_defs)

section \<open>The full listing and the count\<close>










section \<open>The line filter\<close>

lemma filter_res_Inr: "filter_res f xs = Inr ys \<Longrightarrow> ys = filter (\<lambda>x. f x = Inr True) xs"
  by (induction xs arbitrary: ys) (auto split: sum.splits if_splits)

lemma filter_res_total:
  "\<forall>x \<in> set xs. f x = Inr (g x) \<Longrightarrow> filter_res f xs = Inr (filter g xs)"
  by (induction xs) auto

lemma rama_linea_Inr:
  assumes "rama_linea rx df (PStr s) dir = Inr res"
  shows "mset res = mset (filter (\<lambda>r. re_search rx (str_lower s) (str_lower (Linea r)) = Inr True
                                  \<and> (truthy dir \<longrightarrow> py_lower dir = Inr (str_lower (Direccion r)))) df)"
proof -
  let ?m = "\<lambda>r. re_search rx (str_lower s) (str_lower (Linea r))"
  obtain sel where sel: "filter_res ?m df = Inr sel"
    using assms by (auto simp: rama_linea_def split: sum.splits)
  have sel_eq: "sel = filter (\<lambda>r. ?m r = Inr True) df"
    by (rule filter_res_Inr [OF sel])
  show ?thesis
  proof (cases "truthy dir")
    case True
    then obtain d where d: "py_lower dir = Inr d"
      using assms sel by (auto simp: rama_linea_def split: sum.splits)
    have "res = sort_values (\<lambda>r. time_us (Salida r)) (filter (\<lambda>r. str_lower (Direccion r) = d) sel)"
      using assms sel d True by (simp add: rama_linea_def)
    then show ?thesis
      using True d by (auto simp: mset_sort_values sel_eq intro!: filter_mset_cong)
  next
    case False
    then have "res = sort_values (\<lambda>r. time_us (Salida r)) sel"
      using assms sel by (simp add: rama_linea_def)
    then show ?thesis
      using False by (simp add: mset_sort_values sel_eq)
  qed
qed

text \<open>
  Claim C9. When the line filter is a non-empty string, two runs on the same
  store whose intents agree on \<^verbatim>\<open>micro_linea\<close> and \<^verbatim>\<open>direccion\<close> return the same
  thing, whatever their other keys and their current instants are. A returned
  result holds every row the filter and the direction select: no count caps it.
\<close>

theorem line_filter_ignores_time_and_count:
  assumes "first_of_list (dict_get i1 ''micro_linea'') = PStr s" and "s \<noteq> []"
    and "dict_get i2 ''micro_linea'' = dict_get i1 ''micro_linea''"
    and "dict_get i2 ''direccion'' = dict_get i1 ''direccion''"
  shows "buscar_horarios rx df now1 i1 = buscar_horarios rx df now2 i2
       \<and> (\<forall>res. buscar_horarios rx df now1 i1 = Inr res \<longrightarrow>
             mset res = mset (filter (\<lambda>r. re_search rx (str_lower s) (str_lower (Linea r)) = Inr True
                 \<and> (truthy (first_of_list (dict_get i1 ''direccion'')) \<longrightarrow>
                      py_lower (first_of_list (dict_get i1 ''direccion'')) = Inr (str_lower (Direccion r))))
               df))"
proof -
  have b: "buscar_horarios rx df now i = (if df = [] then Inr []
        else rama_linea rx df (PStr s) (first_of_list (dict_get i1 ''direccion'')))"
    if "dict_get i ''micro_linea'' = dict_get i1 ''micro_linea''"
      "dict_get i ''direccion'' = dict_get i1 ''direccion''" for i now
    using that assms(1,2) by (simp add: buscar_horarios_def Let_def)
  have "buscar_horarios rx df now1 i1 = buscar_horarios rx df now2 i2"
    using b [of i1 now1] b [of i2 now2] assms(3,4) by simp
  moreover have "mset res = mset (filter (\<lambda>r. re_search rx (str_lower s) (str_lower (Linea r)) = Inr True
                 \<and> (truthy (first_of_list (dict_get i1 ''direccion'')) \<longrightarrow>
                      py_lower (first_of_list (dict_get i1 ''direccion'')) = Inr (str_lower (Direccion r))))
               df)"
    if "buscar_horarios rx df now1 i1 = Inr res" for res
    using that b [of i1 now1] rama_linea_Inr [of rx df s "first_of_list (dict_get i1 ''direccion'')" res]
    by (cases "df = []") auto
  ultimately show ?thesis by blast
qed

theorem line_filter_ignores_time_and_count_witness:
  "first_of_list (dict_get [''micro_linea'' \<mapsto> PStr ''60''] ''micro_linea'') = PStr ''60''
   \<and> buscar_horarios rx_refuse store3 at_1500 [''micro_linea'' \<mapsto> PStr ''60'']
      = buscar_horarios rx_refuse store3 at_1600
          [''micro_linea'' \<mapsto> PStr ''60'', ''hora'' \<mapsto> PStr ''ahora'', ''cantidad'' \<mapsto> PInt 1,
           ''condicion_horario'' \<mapsto> PStr ''cerca'', ''listado_completo'' \<mapsto> PBool False]
   \<and> buscar_horarios rx_refuse store3 at_1500 [''micro_linea'' \<mapsto> PStr ''60'']
      = Inr [trip_1450, trip_1530]"
proof -
  let ?i1 = "[''micro_linea'' \<mapsto> PStr ''60'']"
  let ?i2 = "[''micro_linea'' \<mapsto> PStr ''60'', ''hora'' \<mapsto> PStr ''ahora'', ''cantidad'' \<mapsto> PInt 1,
           ''condicion_horario'' \<mapsto> PStr ''cerca'', ''listado_completo'' \<mapsto> PBool False]"
  have h: "first_of_list (dict_get ?i1 ''micro_linea'') = PStr ''60''" "''60'' \<noteq> []"
    "dict_get ?i2 ''micro_linea'' = dict_get ?i1 ''micro_linea''"
    "dict_get ?i2 ''direccion'' = dict_get ?i1 ''direccion''"
    by (simp_all add: dict_get_def)
  have e: "buscar_horarios rx_refuse store3 at_1500 ?i1 = Inr [trip_1450, trip_1530]"
    by (simp add: engine_defs library_defs scenario_defs)
  from line_filter_ignores_time_and_count [OF h, of rx_refuse store3 at_1500 at_1600] h(1) e
  show ?thesis
    by blast
qed

subsection \<open>Patterns and substrings\<close>

lemma re_special_code:
  assumes "re_special c"
  shows "\<not> (65 \<le> (of_char c :: nat) \<and> (of_char c :: nat) \<le> 90)
       \<and> \<not> (97 \<le> (of_char c :: nat) \<and> (of_char c :: nat) \<le> 122)"
proof -
  from assms consider "c = CHR ''^''" | "c = CHR ''$''" | "c = CHR ''*''" | "c = CHR ''+''"
    | "c = CHR ''?''" | "c = CHR ''{''" | "c = CHR ''}''" | "c = CHR ''[''" | "c = CHR '']''"
    | "c = CHR ''|''" | "c = CHR ''(''" | "c = CHR '')''" | "c = CHR 0x5C"
    unfolding re_special_def by fastforce
  then show ?thesis by cases simp_all
qed

lemma dot_code: "c = CHR ''.'' \<Longrightarrow> (of_char c :: nat) = 46"
  by simp

lemma lower_char_cases:
  "lower_char c = c \<or> (65 \<le> (of_char c :: nat) \<and> (of_char c :: nat) \<le> 90
      \<and> (of_char (lower_char c) :: nat) = of_char c + 32)"
  by (simp add: lower_char_def Let_def)

lemma re_special_lower_char: "re_special (lower_char c) = re_special c"
proof (cases "lower_char c = c")
  case True
  then show ?thesis by simp
next
  case False
  with lower_char_cases [of c]
  have r: "65 \<le> (of_char c :: nat)" "(of_char c :: nat) \<le> 90"
    "(of_char (lower_char c) :: nat) = of_char c + 32"
    by blast+
  have "\<not> re_special c"
    using re_special_code [of c] r by blast
  moreover have "\<not> re_special (lower_char c)"
    using re_special_code [of "lower_char c"] r by auto
  ultimately show ?thesis by simp
qed

lemma dot_lower_char: "lower_char c = CHR ''.'' \<longleftrightarrow> c = CHR ''.''"
proof (cases "lower_char c = c")
  case True
  then show ?thesis by simp
next
  case False
  with lower_char_cases [of c]
  have r: "65 \<le> (of_char c :: nat)" "(of_char c :: nat) \<le> 90"
    "(of_char (lower_char c) :: nat) = of_char c + 32"
    by blast+
  have "c \<noteq> CHR ''.''"
    using dot_code [of c] r by auto
  moreover have "lower_char c \<noteq> CHR ''.''"
    using dot_code [of "lower_char c"] r by auto
  ultimately show ?thesis by simp
qed

lemma match_here_prefix: "CHR ''.'' \<notin> set p \<Longrightarrow> match_here p s \<longleftrightarrow> prefix p s"
  by (induction p s rule: match_here.induct) auto

lemma search_sublist: "CHR ''.'' \<notin> set p \<Longrightarrow> search p s \<longleftrightarrow> sublist p s"
  by (induction s) (auto simp: match_here_prefix sublist_Cons_right)

lemma set_str_lower_special:
  "(\<exists>c \<in> set (str_lower s). re_special c) \<longleftrightarrow> (\<exists>c \<in> set s. re_special c)"
  unfolding str_lower_def set_map bex_simps(7) re_special_lower_char ..

lemma in_set_map_iff: "z \<in> set (map f s) \<longleftrightarrow> (\<exists>c \<in> set s. f c = z)"
  by auto

lemma set_str_lower_dot: "CHR ''.'' \<in> set (str_lower s) \<longleftrightarrow> CHR ''.'' \<in> set s"
proof -
  have "(\<exists>c \<in> set s. c = z) \<longleftrightarrow> z \<in> set s" for z :: char
    by auto
  then show ?thesis
    unfolding str_lower_def in_set_map_iff dot_lower_char .
qed

lemma re_search_fragment:
  assumes "\<forall>c \<in> set s. \<not> re_special c"
  shows "re_search rx (str_lower s) l = Inr (search (str_lower s) l)"
proof -
  have "\<not> (\<exists>c \<in> set (str_lower s). re_special c)"
    unfolding set_str_lower_special using assms by blast
  then show ?thesis
    unfolding re_search_def by (rule if_not_P)
qed

lemma re_search_plain:
  assumes "\<forall>c \<in> set s. \<not> re_special c" and "CHR ''.'' \<notin> set s"
  shows "re_search rx (str_lower s) l = Inr (sublist (str_lower s) l)"
proof -
  have "CHR ''.'' \<notin> set (str_lower s)"
    unfolding set_str_lower_dot by (rule assms(2))
  then have "search (str_lower s) l = sublist (str_lower s) l"
    by (rule search_sublist)
  then show ?thesis
    unfolding re_search_fragment [OF assms(1)] by (rule arg_cong)
qed

lemma rama_linea_fragment:
  assumes "\<forall>c \<in> set s. \<not> re_special c"
  shows "rama_linea rx df (PStr s) dr =
     (if truthy dr
      then (case py_lower dr of
              Inl e \<Rightarrow> Inl e
            | Inr d \<Rightarrow> Inr (sort_values (\<lambda>r. time_us (Salida r))
                (filter (\<lambda>r. str_lower (Direccion r) = d)
                   (filter (\<lambda>r. search (str_lower s) (str_lower (Linea r))) df))))
      else Inr (sort_values (\<lambda>r. time_us (Salida r))
                (filter (\<lambda>r. search (str_lower s) (str_lower (Linea r))) df)))"
proof -
  have "filter_res (\<lambda>r. re_search rx (str_lower s) (str_lower (Linea r))) df
      = Inr (filter (\<lambda>r. search (str_lower s) (str_lower (Linea r))) df)"
    by (rule filter_res_total) (simp add: re_search_fragment [OF assms])
  then show ?thesis
    by (simp add: rama_linea_def)
qed

text \<open>
  What the line branch does on a filter written with ordinary characters only
  (no metacharacter, no \<^verbatim>\<open>.\<close>): the rows whose line contains the filter up to
  case, restricted to the direction when one is given, in ascending order of
  departure time, whatever the current instant.
\<close>

lemma line_filter_plain:
  assumes ml: "first_of_list (dict_get intent ''micro_linea'') = PStr s" and ne: "s \<noteq> []"
    and plain: "\<forall>c \<in> set s. \<not> re_special c" and nodot: "CHR ''.'' \<notin> set s"
    and dir: "\<not> truthy (first_of_list (dict_get intent ''direccion''))
              \<or> first_of_list (dict_get intent ''direccion'') = PStr d"
  shows "\<exists>res. buscar_horarios rx df now intent = Inr res
           \<and> sorted (map (\<lambda>r. time_us (Salida r)) res)
           \<and> mset res = mset (filter (\<lambda>r. sublist (str_lower s) (str_lower (Linea r))
                 \<and> (truthy (first_of_list (dict_get intent ''direccion''))
                      \<longrightarrow> str_lower (Direccion r) = str_lower d)) df)"
proof (cases "df = []")
  case True
  then show ?thesis by (simp add: buscar_horarios_def)
next
  case False
  have s: "search (str_lower s) l = sublist (str_lower s) l" for l
    using re_search_plain [OF plain nodot, of undefined l] re_search_fragment [OF plain, of undefined l]
    by simp
  have b: "buscar_horarios rx df now intent
      = rama_linea rx df (PStr s) (first_of_list (dict_get intent ''direccion''))"
    using False ml ne by (simp add: buscar_horarios_def Let_def)
  show ?thesis
  proof (cases "truthy (first_of_list (dict_get intent ''direccion''))")
    case True
    with dir have d: "first_of_list (dict_get intent ''direccion'') = PStr d" by blast
    show ?thesis
      unfolding b rama_linea_fragment [OF plain] d
      using True d
      by (auto simp: sorted_sort_values mset_sort_values s intro!: filter_mset_cong)
  next
    case False
    then show ?thesis
      unfolding b rama_linea_fragment [OF plain]
      by (simp add: sorted_sort_values mset_sort_values s)
  qed
qed

text \<open>
  Claim C5, at the filter \<^verbatim>\<open>1.0\<close>. The pattern is searched as a regular
  expression, so its \<^verbatim>\<open>.\<close> stands for any character: the trip of line
  \<^verbatim>\<open>Ruta 160\<close> is returned, although \<^verbatim>\<open>1.0\<close> is not a substring of its line.
\<close>

theorem line_filter_is_a_pattern:
  "buscar_horarios rx_refuse store3 at_1500 [''micro_linea'' \<mapsto> PStr ''1.0''] = Inr [trip_1530]
   \<and> \<not> sublist (str_lower ''1.0'') (str_lower (Linea trip_1530))"
  by (simp add: engine_defs library_defs scenario_defs sublist_Cons_right)

section \<open>The trips nearest to a requested time\<close>

lemma head_rows_1_min:
  assumes "xs \<noteq> []"
  shows "\<exists>x. head_rows 1 (sort_values k xs) = [x] \<and> x \<in> set xs \<and> (\<forall>y \<in> set xs. k x \<le> k y)"
proof -
  have "length (sort_values k xs) = length xs"
    by (simp add: sort_values_def)
  with assms obtain x rest where xr: "sort_values k xs = x # rest"
    by (cases "sort_values k xs") auto
  have "sorted (map k (x # rest))"
    using sorted_sort_values [of k xs] by (simp add: xr)
  then have "\<forall>y \<in> set (x # rest). k x \<le> k y"
    by auto
  moreover have "set (x # rest) = set xs"
    using set_sort_values [of k xs] by (simp add: xr)
  ultimately show ?thesis
    by (auto simp: head_rows_def xr)
qed

lemma head_rows_1_max:
  assumes "xs \<noteq> []"
  shows "\<exists>x. head_rows 1 (sort_values_desc k xs) = [x] \<and> x \<in> set xs \<and> (\<forall>y \<in> set xs. k y \<le> k x)"
  using head_rows_1_min [OF assms, of "\<lambda>x. - k x"]
  by (simp add: sort_values_desc_def sort_values_def)

lemma sort_values_pair: "k b \<le> k a \<Longrightarrow> sort_values k [b, a] = [b, a]"
  by (simp add: sort_values_def)

lemma rama_cerca_empty: "rama_cerca now [] T = Inl KeyError"
  by (simp add: rama_cerca_def)

text \<open>
  What the branch \<^verbatim>\<open>cerca\<close> returns when at least one trip is left to choose
  from: a trip of latest arrival among those arriving at or before the requested
  instant, when there is one, followed by a trip of earliest arrival among those
  arriving strictly after it, when there is one.
\<close>

lemma rama_cerca_result:
  assumes "xs \<noteq> []"
  shows "\<exists>below above. rama_cerca now xs T = Inr (below @ above)
     \<and> (if filter (\<lambda>r. llegada_datetime now r \<le> instant T) xs = [] then below = []
        else \<exists>b. below = [b] \<and> b \<in> set xs \<and> llegada_datetime now b \<le> instant T
               \<and> (\<forall>q \<in> set xs. llegada_datetime now q \<le> instant T
                      \<longrightarrow> llegada_datetime now q \<le> llegada_datetime now b))
     \<and> (if filter (\<lambda>r. llegada_datetime now r > instant T) xs = [] then above = []
        else \<exists>a. above = [a] \<and> a \<in> set xs \<and> instant T < llegada_datetime now a
               \<and> (\<forall>q \<in> set xs. instant T < llegada_datetime now q
                      \<longrightarrow> llegada_datetime now a \<le> llegada_datetime now q))"
proof -
  let ?k = "llegada_datetime now"
  let ?B = "filter (\<lambda>r. ?k r \<le> instant T) xs"
  let ?A = "filter (\<lambda>r. ?k r > instant T) xs"
  have some: "?B \<noteq> [] \<or> ?A \<noteq> []"
    using assms by (cases xs) auto
  have bmax: "\<exists>b. head_rows 1 (sort_values_desc ?k ?B) = [b] \<and> b \<in> set xs \<and> ?k b \<le> instant T
      \<and> (\<forall>q \<in> set xs. ?k q \<le> instant T \<longrightarrow> ?k q \<le> ?k b)" if "?B \<noteq> []"
    using head_rows_1_max [OF that, of ?k] by auto
  have amin: "\<exists>a. head_rows 1 (sort_values ?k ?A) = [a] \<and> a \<in> set xs \<and> instant T < ?k a
      \<and> (\<forall>q \<in> set xs. instant T < ?k q \<longrightarrow> ?k a \<le> ?k q)" if "?A \<noteq> []"
    using head_rows_1_min [OF that, of ?k] by auto
  show ?thesis
  proof (cases "?B = []")
    case bn: True
    with some have an: "?A \<noteq> []" by blast
    from amin [OF an] obtain a where a: "head_rows 1 (sort_values ?k ?A) = [a]" "a \<in> set xs"
      "instant T < ?k a" "\<forall>q \<in> set xs. instant T < ?k q \<longrightarrow> ?k a \<le> ?k q"
      by blast
    have "rama_cerca now xs T = Inr ([] @ [a])"
      using bn an a(1) by (simp add: rama_cerca_def Let_def concat_frames_def sort_values_def)
    then show ?thesis
      using bn an a by (intro exI [of _ "[]"] exI [of _ "[a]"]) simp
  next
    case bne: False
    from bmax [OF bne] obtain b where b: "head_rows 1 (sort_values_desc ?k ?B) = [b]" "b \<in> set xs"
      "?k b \<le> instant T" "\<forall>q \<in> set xs. ?k q \<le> instant T \<longrightarrow> ?k q \<le> ?k b"
      by blast
    show ?thesis
    proof (cases "?A = []")
      case an: True
      have "rama_cerca now xs T = Inr ([b] @ [])"
        using bne an b(1) by (simp add: rama_cerca_def Let_def concat_frames_def sort_values_def)
      then show ?thesis
        using bne an b by (intro exI [of _ "[b]"] exI [of _ "[]"]) simp
    next
      case ane: False
      from amin [OF ane] obtain a where a: "head_rows 1 (sort_values ?k ?A) = [a]" "a \<in> set xs"
        "instant T < ?k a" "\<forall>q \<in> set xs. instant T < ?k q \<longrightarrow> ?k a \<le> ?k q"
        by blast
      have "?k b \<le> ?k a"
        using b(3) a(3) by simp
      then have "rama_cerca now xs T = Inr ([b] @ [a])"
        using bne ane a(1) b(1)
        by (simp add: rama_cerca_def Let_def concat_frames_def sort_values_pair)
      then show ?thesis
        using bne ane a b by (intro exI [of _ "[b]"] exI [of _ "[a]"]) simp
    qed
  qed
qed

lemma rama_cerca_total:
  assumes "xs \<noteq> []"
  shows "\<exists>res. rama_cerca now xs T = Inr res"
  using rama_cerca_result [OF assms, of now T] by blast

text \<open>
  With no line filter, the direction a non-empty string, a time that
  \<^verbatim>\<open>strptime\<close> accepts and the relation \<^verbatim>\<open>cerca\<close>, the engine is the branch on
  the not-yet-departed trips of the direction; when there is none, the
  \<^verbatim>\<open>KeyError\<close> of line 127 leaves the function.
\<close>

lemma buscar_cerca:
  assumes m: "\<not> truthy (first_of_list (dict_get intent ''micro_linea''))"
      "first_of_list (dict_get intent ''direccion'') = PStr d" "d \<noteq> []"
    and h: "dict_get intent ''hora'' = PStr h" "strptime_HM h = Inr t"
    and c: "dict_get intent ''condicion_horario'' = PStr ''cerca''"
    and ne: "df \<noteq> []"
  shows "buscar_horarios rx df now intent
     = (if not_departed d now df = [] then Inl KeyError
        else rama_cerca now (not_departed d now df) (combine (day now) t))"
proof -
  have "h \<noteq> ''ahora''" "h \<noteq> []"
    using h(2) by (auto simp: is_digit_def)
  then have b: "buscar_horarios rx df now intent
      = except_ValueError (rama_cerca now (not_departed d now df) (combine (day now) t))"
    using ne h c by (simp add: buscar_direccion [OF m] rama_hora_def Let_def)
  show ?thesis
  proof (cases "not_departed d now df = []")
    case True
    then show ?thesis
      by (simp add: b rama_cerca_empty except_ValueError_def)
  next
    case False
    from rama_cerca_total [OF False, of now "combine (day now) t"] show ?thesis
      using False by (auto simp: b except_ValueError_def)
  qed
qed

text \<open>
  Claim C2, at 16:00, when the three outbound trips have left, for the intent
  "outbound, near 17:00". No trip is left to choose from, and the result is not
  the empty one: \<^verbatim>\<open>resultados\<close> is still the frame without columns of line 115
  when line 127 sorts it by \<^verbatim>\<open>llegada_datetime\<close>, and the \<^verbatim>\<open>KeyError\<close> is not
  the \<^verbatim>\<open>ValueError\<close> that line 157 catches.
\<close>

theorem cerca_without_candidates_raises:
  "not_departed ''Ida'' at_1600 store3 = []
   \<and> buscar_horarios rx_refuse store3 at_1600
        [''direccion'' \<mapsto> PStr ''Ida'', ''hora'' \<mapsto> PStr ''17:00'',
         ''condicion_horario'' \<mapsto> PStr ''cerca''] = Inl KeyError"
  by (simp add: not_departed_def engine_defs library_defs scenario_defs)

section \<open>Exceptions that leave the engine\<close>






section \<open>The table is left as it was\<close>

text \<open>
  Each branch on the store agrees with the branch on rows, by running the
  operations one after the other on a store \<open>h\<close> of which only the frame at
  the given reference is known.
\<close>

lemmas st_defs = ret_def raise_def bindE_def alloc_def DataFrame_new_def is_empty_def read_col_def
  sub_abs_def setitem_apply_def
  getitem_mask_def getitem_mask_res_def copy_def setitem_def sort_by_base_def sort_by_derived_def
  sort_by_base_desc_def sort_by_derived_desc_def head_st_def drop_col_def concat_st_def
  try_except_ValueError_def

lemma agrees_trans: "prefix h h1 \<Longrightarrow> agrees h1 out p \<Longrightarrow> agrees h out p"
  by (auto simp: agrees_def split: sum.splits dest: prefix_length_le)

lemma rama_ahora_st_agrees:
  assumes "a < length h" and "map_of (derived (h ! a)) ''salida_datetime'' = Some dt"
  shows "agrees h (rama_ahora_st now a l c h) (rama_ahora now (filas (h ! a)) l c)"
  using assms
  by (cases c) (auto simp: agrees_def rama_ahora_st_def rama_ahora_def st_defs nth_append Let_def)

lemma rama_rango_st_agrees:
  assumes "a < length h" and "map_of (derived (h ! a)) ''llegada_datetime'' = Some dt"
  shows "agrees h (rama_rango_st now a P T l c h) (rama_rango now dt (filter P (filas (h ! a))) T l c)"
  using assms
  by (cases c) (auto simp: agrees_def rama_rango_st_def rama_rango_def st_defs nth_append Let_def
      list_update_append)

lemma rama_cerca_st_agrees:
  assumes "a < length h" and "map_of (derived (h ! a)) ''llegada_datetime'' = Some dt"
  shows "agrees h (rama_cerca_st now a T h) (rama_cerca now (filas (h ! a)) T)"
  using assms
  by (auto simp: agrees_def rama_cerca_st_def rama_cerca_def st_defs nth_append Let_def
      concat_frames_def)

lemma rama_hora_st_agrees:
  assumes "a < length h" and "map_of (derived (h ! a)) ''llegada_datetime'' = Some dt"
  shows "agrees h (rama_hora_st now a hs co l c h) (rama_hora now dt (filas (h ! a)) hs co l c)"
proof -
  have ex: "agrees h (try_except_ValueError m h) (except_ValueError p)" if "agrees h (m h) p" for m p
    using that
    by (auto simp: agrees_def try_except_ValueError_def except_ValueError_def DataFrame_new_def
        alloc_def split: sum.splits prod.splits dest: prefix_length_le)
  have new: "agrees h (DataFrame_new h) (Inr [])"
    by (simp add: agrees_def DataFrame_new_def alloc_def)
  have err: "agrees h (raise e h) (Inl e)" for e
    by (simp add: agrees_def raise_def)
  show ?thesis
    unfolding rama_hora_st_def rama_hora_def
    by (rule ex)
      (auto simp: Let_def new err rama_cerca_st_agrees [OF assms] rama_rango_st_agrees [OF assms]
        split: sum.splits)
qed

lemma rama_linea_st_agrees:
  assumes "a < length h"
  shows "agrees h (rama_linea_st rx a ml dr h) (rama_linea rx (filas (h ! a)) ml dr)"
  using assms
  by (auto simp: agrees_def rama_linea_st_def rama_linea_def st_defs nth_append Let_def
      split: sum.splits)

lemma DataFrame_new_agrees: "agrees h (DataFrame_new h) (Inr [])"
  by (simp add: agrees_def DataFrame_new_def alloc_def)

lemma raise_agrees: "agrees h (raise e h) (Inl e)"
  by (simp add: agrees_def raise_def)

lemma buscar_horarios_st_agrees:
  assumes "df < length h"
  shows "agrees h (buscar_horarios_st rx df now intent h)
           (buscar_horarios rx (filas (h ! df)) now intent)"
proof (cases "filas (h ! df) = []")
  case True
  then show ?thesis
    by (simp add: buscar_horarios_st_def buscar_horarios_def bindE_def is_empty_def
        DataFrame_new_agrees)
next
  case ne: False
  let ?ml = "first_of_list (dict_get intent ''micro_linea'')"
  let ?dr = "first_of_list (dict_get intent ''direccion'')"
  let ?l = "dict_get_default intent ''listado_completo'' (PBool False)"
  let ?c = "dict_get intent ''cantidad''"
  show ?thesis
  proof (cases "truthy ?ml")
    case True
    then show ?thesis
      using ne rama_linea_st_agrees [OF assms, of rx ?ml ?dr]
      by (simp add: buscar_horarios_st_def buscar_horarios_def bindE_def is_empty_def Let_def)
  next
    case nl: False
    show ?thesis
    proof (cases "truthy ?dr")
      case False
      then show ?thesis
        using ne nl
        by (simp add: buscar_horarios_st_def buscar_horarios_def bindE_def is_empty_def Let_def
            DataFrame_new_agrees)
    next
      case td: True
      show ?thesis
      proof (cases "py_lower ?dr")
        case (Inl e)
        then show ?thesis
          using ne nl td
          by (simp add: buscar_horarios_st_def buscar_horarios_def bindE_def is_empty_def Let_def
              raise_agrees)
      next
        case (Inr d)
        define f1 where "f1 = (h ! df)\<lparr>filas := filter (\<lambda>r. str_lower (Direccion r) = d) (filas (h ! df))\<rparr>"
        define f2 where "f2 = f1\<lparr>derived := (''llegada_datetime'', apply_dtype (filas f1))
            # filter (\<lambda>p. fst p \<noteq> ''llegada_datetime'')
                ((''salida_datetime'', apply_dtype (filas f1))
                 # filter (\<lambda>p. fst p \<noteq> ''salida_datetime'') (derived f1))\<rparr>"
        define f3 where "f3 = f2\<lparr>filas := filter (\<lambda>r. salida_datetime now r > instant now) (filas f2)\<rparr>"
        define h3 where "h3 = h @ [f1, f2, f3]"
        define a where "a = Suc (Suc (length h))"
        have st: "buscar_horarios_st rx df now intent h =
            (if dict_get intent ''hora'' = PStr ''ahora'' then rama_ahora_st now a ?l ?c h3
             else if truthy (dict_get intent ''hora'')
             then rama_hora_st now a (dict_get intent ''hora'')
                    (dict_get intent ''condicion_horario'') ?l ?c h3
             else DataFrame_new h3)"
          using ne nl td Inr assms
          by (simp add: buscar_horarios_st_def bindE_def is_empty_def Let_def getitem_mask_def
              copy_def alloc_def setitem_def setitem_apply_def read_col_def nth_append
              list_update_append f1_def f2_def f3_def h3_def a_def)
        have pu: "buscar_horarios rx (filas (h ! df)) now intent =
            (if dict_get intent ''hora'' = PStr ''ahora'' then rama_ahora now (filas f3) ?l ?c
             else if truthy (dict_get intent ''hora'')
             then rama_hora now (apply_dtype (filas f1)) (filas f3) (dict_get intent ''hora'')
                    (dict_get intent ''condicion_horario'') ?l ?c
             else Inr [])"
          using ne nl td Inr
          by (simp add: buscar_horarios_def Let_def f1_def f2_def f3_def)
        have a: "a < length h3" "h3 ! a = f3"
          by (simp_all add: h3_def a_def nth_append)
        have cols: "map_of (derived (h3 ! a)) ''salida_datetime'' = Some (apply_dtype (filas f1))"
          "map_of (derived (h3 ! a)) ''llegada_datetime'' = Some (apply_dtype (filas f1))"
          by (simp_all add: a f3_def f2_def)
        have p: "prefix h h3"
          by (simp add: h3_def)
        have "agrees h3 (buscar_horarios_st rx df now intent h)
            (buscar_horarios rx (filas (h ! df)) now intent)"
          unfolding st pu
          using rama_ahora_st_agrees [OF a(1) cols(1), of now ?l ?c]
            rama_hora_st_agrees [OF a(1) cols(2), of now "dict_get intent ''hora''"
              "dict_get intent ''condicion_horario''" ?l ?c]
            DataFrame_new_agrees [of h3]
          by (simp add: a(2))
        then show ?thesis
          by (rule agrees_trans [OF p])
      qed
    qed
  qed
qed

text \<open>
  Claim C10. A call on the table at reference \<open>df\<close> of any store leaves every
  frame the store held before the call as it was, the table among them, rows
  and columns; what the call creates or changes lies beyond them, and the frame
  it returns is not the table.
\<close>

theorem store_unchanged:
  assumes "df < length h"
  shows "take (length h) (snd (buscar_horarios_st rx df now intent h)) = h
       \<and> snd (buscar_horarios_st rx df now intent h) ! df = h ! df
       \<and> (\<forall>b. fst (buscar_horarios_st rx df now intent h) = Inr b \<longrightarrow> b \<noteq> df)"
proof -
  from buscar_horarios_st_agrees [OF assms, of rx now intent]
  have p: "prefix h (snd (buscar_horarios_st rx df now intent h))"
    and b: "\<forall>b. fst (buscar_horarios_st rx df now intent h) = Inr b \<longrightarrow> length h \<le> b"
    by (auto simp: agrees_def)
  from p obtain ext where e: "snd (buscar_horarios_st rx df now intent h) = h @ ext"
    by (auto simp: prefix_def)
  show ?thesis
    using assms b by (auto simp: e nth_append)
qed

lemmas st_engine_defs = buscar_horarios_st_def rama_linea_st_def rama_ahora_st_def rama_cerca_st_def
  rama_rango_st_def rama_hora_st_def

theorem store_unchanged_witness:
  "0 < length store_heap
   \<and> fst (buscar_horarios_st rx_refuse 0 at_1500
        [''direccion'' \<mapsto> PStr ''Ida'', ''hora'' \<mapsto> PStr ''16:00'',
         ''condicion_horario'' \<mapsto> PStr ''antes_de''] store_heap) = Inr 7
   \<and> filas (snd (buscar_horarios_st rx_refuse 0 at_1500
        [''direccion'' \<mapsto> PStr ''Ida'', ''hora'' \<mapsto> PStr ''16:00'',
         ''condicion_horario'' \<mapsto> PStr ''antes_de''] store_heap) ! 7) = [trip_1510]
   \<and> take (length store_heap) (snd (buscar_horarios_st rx_refuse 0 at_1500
        [''direccion'' \<mapsto> PStr ''Ida'', ''hora'' \<mapsto> PStr ''16:00'',
         ''condicion_horario'' \<mapsto> PStr ''antes_de''] store_heap)) = store_heap
   \<and> snd (buscar_horarios_st rx_refuse 0 at_1500
        [''direccion'' \<mapsto> PStr ''Ida'', ''hora'' \<mapsto> PStr ''16:00'',
         ''condicion_horario'' \<mapsto> PStr ''antes_de''] store_heap) ! 0 = store_heap ! 0"
proof -
  let ?out = "buscar_horarios_st rx_refuse 0 at_1500
        [''direccion'' \<mapsto> PStr ''Ida'', ''hora'' \<mapsto> PStr ''16:00'',
         ''condicion_horario'' \<mapsto> PStr ''antes_de''] store_heap"
  have l: "0 < length store_heap"
    by (simp add: store_heap_def)
  have r: "fst ?out = Inr 7 \<and> filas (snd ?out ! 7) = [trip_1510]"
    by (simp add: st_engine_defs st_defs store_heap_def engine_defs library_defs scenario_defs)
  from store_unchanged [OF l, of rx_refuse at_1500 "[''direccion'' \<mapsto> PStr ''Ida'',
      ''hora'' \<mapsto> PStr ''16:00'', ''condicion_horario'' \<mapsto> PStr ''antes_de'']"] l r
  show ?thesis
    by blast
qed

end
